theory Spec2Isabelle
  imports Main "HOL-Library.Sublist"
begin

section \<open>Platform values: strings, headers, URLs\<close>

text \<open>
  The worker is one TypeScript function, \<open>fetch(request, env, ctx)\<close>, with two local
  helpers, \<open>errorResponse\<close> and \<open>getCacheKey\<close>. Everything else it touches belongs to
  the Workers runtime (strings, \<open>Headers\<close>, \<open>URL\<close>, \<open>Request\<close>, \<open>Response\<close>, the cache,
  the upstream \<open>fetch\<close>, the digest, the parsers of the URL standard). This section
  models the part of the runtime the function uses; what is too large to model is a
  parameter (\<open>Runtime\<close>, below). Strings are byte strings (\<open>char list\<close>, UTF-8), so \<open>TextEncoder.encode\<close>
  is the identity; case conversion acts on the ASCII letters, which is all that the
  comparisons of the source can observe on HTTP tokens and header values.
\<close>

type_synonym bytes = string

definition toUpperCase :: "string \<Rightarrow> string" where
  "toUpperCase s =
     map (\<lambda>c. let n = (of_char c :: nat)
              in if 97 \<le> n \<and> n \<le> 122 then char_of (n - 32) else c) s"

definition toLowerCase :: "string \<Rightarrow> string" where
  "toLowerCase s =
     map (\<lambda>c. let n = (of_char c :: nat)
              in if 65 \<le> n \<and> n \<le> 90 then char_of (n + 32) else c) s"

text \<open>\<open>String.prototype.includes\<close>: the argument occurs as a contiguous substring.\<close>

fun includes_str :: "string \<Rightarrow> string \<Rightarrow> bool" where
  "includes_str [] sub = (sub = [])"
| "includes_str (c # cs) sub = (prefix sub (c # cs) \<or> includes_str cs sub)"

text \<open>JavaScript's \<open>x || ''\<close> on a value that is a string or \<open>null\<close>.\<close>

definition orEmpty :: "string option \<Rightarrow> string" where
  "orEmpty v = (case v of None \<Rightarrow> [] | Some s \<Rightarrow> s)"

text \<open>
  Decimal rendering of a number (\<open>Number.prototype.toString\<close> on an integer below
  \<open>10^21\<close>, where JavaScript still prints every digit).
\<close>

function digits :: "nat \<Rightarrow> string" where
  "digits n = (if n < 10 then [char_of (48 + n)]
               else digits (n div 10) @ [char_of (48 + n mod 10)])"
  by pat_completeness auto
termination
  by (relation "measure (\<lambda>n. n)") auto

declare digits.simps [simp del]

definition toString :: "int \<Rightarrow> string" where
  "toString i = (if i < 0 then CHR ''-'' # digits (nat (- i)) else digits (nat i))"

subsection \<open>Headers\<close>

text \<open>
  A \<open>Headers\<close> object is a list of name/value pairs; names compare without regard to
  case. \<open>get\<close> joins the values of all entries of that name with \<open>", "\<close> and gives
  \<open>null\<close> when there is none; \<open>set\<close> overwrites the first entry of that name and drops
  the others, or appends; \<open>delete\<close> drops every entry of that name.
\<close>

type_synonym Headers = "(string \<times> string) list"

definition sameName :: "string \<Rightarrow> string \<Rightarrow> bool" where
  "sameName a b = (toLowerCase a = toLowerCase b)"

fun joinValues :: "string list \<Rightarrow> string" where
  "joinValues [] = []"
| "joinValues [v] = v"
| "joinValues (v # w # vs) = v @ '', '' @ joinValues (w # vs)"

definition headers_get :: "Headers \<Rightarrow> string \<Rightarrow> string option" where
  "headers_get hs name =
     (case filter (\<lambda>kv. sameName (fst kv) name) hs of
        [] \<Rightarrow> None
      | kvs \<Rightarrow> Some (joinValues (map snd kvs)))"

definition headers_delete :: "Headers \<Rightarrow> string \<Rightarrow> Headers" where
  "headers_delete hs name = filter (\<lambda>kv. \<not> sameName (fst kv) name) hs"

fun headers_set :: "Headers \<Rightarrow> string \<Rightarrow> string \<Rightarrow> Headers" where
  "headers_set [] name v = [(name, v)]"
| "headers_set (kv # hs) name v =
     (if sameName (fst kv) name then (fst kv, v) # headers_delete hs name
      else kv # headers_set hs name v)"

subsection \<open>URLs\<close>

text \<open>
  A parsed \<open>URL\<close>, with the string properties of the JavaScript object: \<open>protocol\<close>
  ends in a colon, \<open>port\<close> is empty for the default port of the scheme, \<open>search\<close> and
  \<open>hash\<close> are empty or start with \<open>?\<close> and \<open>#\<close>. \<open>href\<close> is the serialisation, which
  is also what \<open>request.url\<close> and \<open>url.toString()\<close> give. Credentials in the URL are left
  out: a request cannot carry them.
\<close>

record URL =
  protocol :: string
  hostname :: string
  port :: string
  pathname :: string
  search :: string
  hash :: string

definition href :: "URL \<Rightarrow> string" where
  "href u = protocol u @ ''//'' @ hostname u
              @ (if port u = [] then [] else CHR '':'' # port u)
              @ pathname u @ search u @ hash u"

text \<open>
  The setters the worker uses on an \<open>http(s)\<close> URL. The host parser and the path
  parser of the URL standard (canonicalisation of a host name, percent-encoding and
  dot segments of a path) are parameters: \<open>set_hostname\<close> is given the function that
  tells what host the setter makes of the assigned string (\<open>None\<close> when the setter
  leaves the URL as it is), \<open>set_pathname\<close> the function that tells what path it makes
  of a string that is not empty; assigning the empty path gives \<open>/\<close>.
\<close>

definition set_protocol :: "URL \<Rightarrow> string \<Rightarrow> URL" where
  "set_protocol u p = u\<lparr>protocol := toLowerCase p @ '':''\<rparr>"

definition set_hostname :: "(string \<Rightarrow> string option) \<Rightarrow> URL \<Rightarrow> string \<Rightarrow> URL" where
  "set_hostname hostParser u h =
     (case hostParser h of None \<Rightarrow> u | Some host \<Rightarrow> u\<lparr>hostname := host\<rparr>)"

definition defaultPort :: "string \<Rightarrow> string" where
  "defaultPort proto = (if proto = ''https:'' then ''443''
                        else if proto = ''http:'' then ''80'' else [])"

definition set_port :: "URL \<Rightarrow> string \<Rightarrow> URL" where
  "set_port u p = u\<lparr>port := (if p = defaultPort (protocol u) then [] else p)\<rparr>"

definition set_pathname :: "(string \<Rightarrow> string) \<Rightarrow> URL \<Rightarrow> string \<Rightarrow> URL" where
  "set_pathname pathParser u p = u\<lparr>pathname := (if p = [] then ''/'' else pathParser p)\<rparr>"

definition set_search :: "URL \<Rightarrow> string \<Rightarrow> URL" where
  "set_search u s =
     u\<lparr>search := (if s = [] then [] else if prefix ''?'' s then s else CHR ''?'' # s)\<rparr>"

text \<open>
  \<open>url.searchParams.get(name)\<close>: the query is split at \<open>&\<close>, each piece at its first
  \<open>=\<close>, both halves are form-decoded (\<open>+\<close> is a space, \<open>%XY\<close> a byte), and the value of
  the first pair of that name is returned.
\<close>

fun splitOn :: "char \<Rightarrow> string \<Rightarrow> string list" where
  "splitOn d [] = [[]]"
| "splitOn d (c # cs) =
     (if c = d then [] # splitOn d cs
      else (case splitOn d cs of [] \<Rightarrow> [[c]] | p # ps \<Rightarrow> (c # p) # ps))"

definition hexval :: "char \<Rightarrow> nat option" where
  "hexval c =
     (let n = (of_char c :: nat)
      in if 48 \<le> n \<and> n \<le> 57 then Some (n - 48)
         else if 65 \<le> n \<and> n \<le> 70 then Some (n - 55)
         else if 97 \<le> n \<and> n \<le> 102 then Some (n - 87)
         else None)"

fun formDecode :: "string \<Rightarrow> string" where
  "formDecode [] = []"
| "formDecode [c] = [if c = CHR ''+'' then CHR '' '' else c]"
| "formDecode [c, d] =
     (if c = CHR ''+'' then CHR '' '' else c) # formDecode [d]"
| "formDecode (c # d # e # cs) =
     (if c = CHR ''%'' then
        (case (hexval d, hexval e) of
           (Some h, Some l) \<Rightarrow> char_of (16 * h + l) # formDecode cs
         | _ \<Rightarrow> c # formDecode (d # e # cs))
      else (if c = CHR ''+'' then CHR '' '' else c) # formDecode (d # e # cs))"

definition formPair :: "string \<Rightarrow> string \<times> string" where
  "formPair p = (formDecode (takeWhile (\<lambda>c. c \<noteq> CHR ''='') p),
                 formDecode (drop 1 (dropWhile (\<lambda>c. c \<noteq> CHR ''='') p)))"

definition searchParams :: "URL \<Rightarrow> (string \<times> string) list" where
  "searchParams u =
     map formPair (filter (\<lambda>p. p \<noteq> [])
       (splitOn CHR ''&'' (if prefix ''?'' (search u) then drop 1 (search u) else search u)))"

definition searchParams_get :: "URL \<Rightarrow> string \<Rightarrow> string option" where
  "searchParams_get u name = map_of (searchParams u) name"

section \<open>Requests, responses, exceptions\<close>

text \<open>
  A request body is its bytes (what \<open>arrayBuffer()\<close> gives) together with the verdict
  of the runtime's JSON parser on them (whether \<open>json()\<close> resolves): the worker never
  looks at the parsed value of a request. \<open>body = None\<close> is \<open>request.body === null\<close>.
\<close>

record Body =
  arrayBuffer :: bytes
  parsesAsJSON :: bool

record Request =
  "method" :: string
  url :: URL
  headers :: Headers
  body :: "Body option"

text \<open>
  A JSON value, as \<open>JSON.parse\<close> gives it. A number is an integer (the numbers the worker
  reads are status codes; fractions and exponents are outside this model). An object is the
  list of its properties, each name once. The interfaces \<open>PipelineError\<close> and
  \<open>PipelineErrorList\<close> of the source only name the properties the worker reads: the
  cast \<open>as PipelineError\<close> checks nothing, so a document is any JSON value.
\<close>

datatype json =
  JNull
| JBool bool
| JNum int
| JStr string
| JArr "json list"
| JObj "(string \<times> json) list"

text \<open>JavaScript's truthiness, of a JSON value and of a value that may be \<open>undefined\<close>.\<close>

definition truthy :: "json \<Rightarrow> bool" where
  "truthy v =
     (case v of
        JNull \<Rightarrow> False
      | JBool b \<Rightarrow> b
      | JNum n \<Rightarrow> n \<noteq> 0
      | JStr s \<Rightarrow> s \<noteq> []
      | JArr xs \<Rightarrow> True
      | JObj kvs \<Rightarrow> True)"

definition truthyOpt :: "json option \<Rightarrow> bool" where
  "truthyOpt v = (case v of None \<Rightarrow> False | Some x \<Rightarrow> truthy x)"

text \<open>
  \<open>v.k\<close> for a value that is not \<open>null\<close> and one of the names the worker reads
  (\<open>threads\<close>, \<open>response_map\<close>, \<open>error_list\<close>, \<open>message\<close>, \<open>http_status_code\<close>): an
  object gives its property, \<open>undefined\<close> (\<open>None\<close>) when it has none; a number, a
  boolean, a string and an array have no property of these names. \<open>v[0]\<close> is the first
  element of an array, the first character of a string, the property \<open>0\<close> of an object.
\<close>

definition readProp :: "json \<Rightarrow> string \<Rightarrow> json option" where
  "readProp v k = (case v of JObj kvs \<Rightarrow> map_of kvs k | _ \<Rightarrow> None)"

definition index0 :: "json \<Rightarrow> json option" where
  "index0 v =
     (case v of
        JArr xs \<Rightarrow> (case xs of [] \<Rightarrow> None | x # _ \<Rightarrow> Some x)
      | JStr s \<Rightarrow> (case s of [] \<Rightarrow> None | c # _ \<Rightarrow> Some (JStr [c]))
      | JObj kvs \<Rightarrow> map_of kvs ''0''
      | _ \<Rightarrow> None)"

text \<open>
  A response body, as its readers show it: a text that is a JSON document (\<open>json()\<close>
  resolves with its value), a text that is not JSON (\<open>json()\<close> rejects, \<open>text()\<close>
  resolves), or bytes that cannot be decoded (both reject).
\<close>

datatype ResponseBody = JSON json | Text string | Undecodable

record Response =
  status :: int
  statusText :: string
  headers :: Headers
  body :: ResponseBody
  cf :: "string option"

record ExceptionCause =
  errno :: "int option"
  code :: "string option"
  path :: "string option"
  syscall :: "string option"
  stack :: "string option"

record Exception =
  message :: string
  cause :: "ExceptionCause option"

definition Error :: "string \<Rightarrow> Exception" where
  "Error m = \<lparr>message = m, cause = None\<rparr>"

definition RangeError :: "string \<Rightarrow> Exception" where
  "RangeError m = Error m"

definition TypeError :: "string \<Rightarrow> Exception" where
  "TypeError m = Error m"

text \<open>
  The parts of the runtime that are parameters of the model:
  \<^item> \<open>digest\<close> is \<open>crypto.subtle.digest('SHA-256', _)\<close>;
  \<^item> \<open>parseHost\<close> is what assigning a string to \<open>hostname\<close> of an \<open>http(s)\<close> URL
    makes of it under the URL standard: the canonical host, or \<open>None\<close> when the setter
    leaves the URL as it is;
  \<^item> \<open>parsePath\<close> is what assigning a string that is not empty to \<open>pathname\<close> of an
    \<open>http(s)\<close> URL makes of it under the URL standard: the serialised path;
  \<^item> \<open>toNumber\<close> is JavaScript's conversion to an integral number (\<open>ToNumber\<close>, then
    truncation, 0 for \<open>NaN\<close>) of a JSON value that is not a number; it may throw.
\<close>

record Runtime =
  digest :: "bytes \<Rightarrow> bytes"
  parseHost :: "string \<Rightarrow> string option"
  parsePath :: "string \<Rightarrow> string"
  toNumber :: "json \<Rightarrow> Exception + int"

text \<open>
  \<open>new Response(body, {status, headers})\<close> with a body that is not null, after the Fetch
  standard: the status is converted to an unsigned 16-bit number, a status outside
  200..599 throws a \<open>RangeError\<close>, a null-body status (204, 205, 304) throws a
  \<open>TypeError\<close>.
\<close>

definition toUnsignedShort :: "Runtime \<Rightarrow> json \<Rightarrow> Exception + int" where
  "toUnsignedShort rt v =
     (case v of
        JNum n \<Rightarrow> Inr (n mod 65536)
      | _ \<Rightarrow> (case toNumber rt v of Inl e \<Rightarrow> Inl e | Inr n \<Rightarrow> Inr (n mod 65536)))"

definition Response_new ::
  "Runtime \<Rightarrow> ResponseBody \<Rightarrow> json \<Rightarrow> Headers \<Rightarrow> Exception + Response" where
  "Response_new rt b st hs =
     (case toUnsignedShort rt st of
        Inl e \<Rightarrow> Inl e
      | Inr s \<Rightarrow>
          if s < 200 \<or> 599 < s then
            Inl (RangeError ''Responses may only be constructed with status codes in the range 200 to 599, inclusive.'')
          else if s = 204 \<or> s = 205 \<or> s = 304 then
            Inl (TypeError ''Response with null body status cannot have body'')
          else Inr \<lparr>status = s, statusText = [], headers = hs, body = b, cf = None\<rparr>)"

section \<open>The worker\<close>

record Env =
  ttl :: int
  targetProtocol :: string
  targetHostname :: string
  targetPort :: int
  targetPathPrefix :: "string option"
  requireHTTPS :: "bool option"
  allowBinaryData :: "bool option"
  requestTimeout :: "int option"

text \<open>
  \<open>Env\<close> holds the environment after the coercions that open the \<open>try\<close> block
  (\<open>parseInt\<close>, \<open>toString() === 'true'\<close>): \<open>None\<close> is \<open>undefined\<close> and, for
  \<open>requestTimeout\<close>, also \<open>NaN\<close>. \<open>ttl\<close> and \<open>targetPort\<close> are taken to be numbers.
\<close>

subsection \<open>\<open>errorResponse\<close>\<close>

text \<open>
  The two arguments are JavaScript values: the calls of the source pass numbers and
  strings, and one call passes what it read from the upstream's document.
\<close>

definition errorResponse :: "Runtime \<Rightarrow> json \<Rightarrow> json \<Rightarrow> Exception + Response" where
  "errorResponse rt status_code msg =
     Response_new rt
       (JSON (JObj [(''http_status_code'', status_code),
                    (''response_map'',
                       JObj [(''error_list'', JArr [JObj [(''message'', msg)]])])]))
       status_code
       [(''content-type'', ''application/json'')]"

subsection \<open>\<open>getCacheKey\<close>\<close>

text \<open>
  \<open>Buffer.toString('hex')\<close> writes each byte as two lower-case hexadecimal digits.
\<close>

definition hexdigit :: "nat \<Rightarrow> char" where
  "hexdigit n = ''0123456789abcdef'' ! (n mod 16)"

definition hex :: "bytes \<Rightarrow> string" where
  "hex bs = concat (map (\<lambda>b. [hexdigit (of_char b div 16), hexdigit (of_char b)]) bs)"

definition keyBuffer :: "Request \<Rightarrow> bytes" where
  "keyBuffer request =
     (toUpperCase (method request) @ ''|'' @ href (url request) @ ''|'')
     @ (case Request.body request of None \<Rightarrow> [] | Some b \<Rightarrow> arrayBuffer b)"

definition getCacheKey :: "Runtime \<Rightarrow> URL \<Rightarrow> Request \<Rightarrow> string" where
  "getCacheKey rt u request =
     (let hashBuffer = digest rt (keyBuffer request)
      in href (set_search (set_pathname (parsePath rt) u []) (hex hashBuffer)))"

subsection \<open>Configuration\<close>

text \<open>The checks on the environment; each failure is a thrown \<open>Error\<close>.\<close>

definition checkEnv :: "Env \<Rightarrow> Exception option" where
  "checkEnv env =
     (if targetHostname env = [] then
        Some (Error ''targetHostname parameter is required'')
      else if targetPort env < 0 \<or> 65535 < targetPort env then
        Some (Error ''targetPort parameter must be set from 0 to 65535'')
      else if toLowerCase (targetProtocol env) \<noteq> ''http''
              \<and> toLowerCase (targetProtocol env) \<noteq> ''https'' then
        Some (Error ''targetUrl parameter must be either http or https'')
      else if ttl env \<le> 0 then
        Some (Error ''ttl parameter must be a number greater than 0'')
      else if (case requestTimeout env of None \<Rightarrow> False | Some t \<Rightarrow> t < 0) then
        Some (Error ''requestTimeout parameter must be a number greater than 0'')
      else None)"

text \<open>The defaults: binary data refused, a timeout of 100 seconds, HTTPS required.\<close>

definition defaults :: "Env \<Rightarrow> Env" where
  "defaults env =
     env\<lparr>allowBinaryData := (case allowBinaryData env of None \<Rightarrow> Some False | v \<Rightarrow> v),
         requestTimeout := (case requestTimeout env of None \<Rightarrow> Some 100
                            | Some t \<Rightarrow> if t = 0 then Some 100 else Some t),
         requireHTTPS := (case requireHTTPS env of None \<Rightarrow> Some True | v \<Rightarrow> v)\<rparr>"

subsection \<open>Request validation\<close>

text \<open>
  The regular expressions of the source, as predicates on the string they are matched
  against. \<open>/^POST|PUT|PATCH|HEAD|GET|DELETE$/\<close> has no group, so its anchors bind to
  the first and the last alternative only: it matches a string that starts with
  \<open>POST\<close>, or contains \<open>PUT\<close>, \<open>PATCH\<close>, \<open>HEAD\<close> or \<open>GET\<close>, or ends with \<open>DELETE\<close>.
  \<open>/^(POST|PUT|PATCH)$/\<close> matches exactly those three strings.
\<close>

definition methodAllowed :: "string \<Rightarrow> bool" where
  "methodAllowed m =
     (prefix ''POST'' m \<or> includes_str m ''PUT'' \<or> includes_str m ''PATCH''
      \<or> includes_str m ''HEAD'' \<or> includes_str m ''GET'' \<or> suffix ''DELETE'' m)"

definition methodHasBody :: "string \<Rightarrow> bool" where
  "methodHasBody m = (m = ''POST'' \<or> m = ''PUT'' \<or> m = ''PATCH'')"

text \<open>
  \<open>/^application\/(x-www-form-urlencoded|json)(;.*)?$/\<close>; the result is the first
  group of the match. The dot matches no line terminator.
\<close>

definition matchesType :: "string \<Rightarrow> string \<Rightarrow> bool" where
  "matchesType t ct =
     (prefix (''application/'' @ t) ct \<and>
      (let rest = drop (length (''application/'' @ t)) ct
       in rest = [] \<or> (prefix '';'' rest
                        \<and> CHR 0x0A \<notin> set rest \<and> CHR 0x0D \<notin> set rest)))"

definition contentTypeMatch :: "string \<Rightarrow> string option" where
  "contentTypeMatch ct =
     (if matchesType ''x-www-form-urlencoded'' ct then Some ''x-www-form-urlencoded''
      else if matchesType ''json'' ct then Some ''json''
      else None)"

text \<open>
  The validation block: \<open>Some r\<close> is \<open>return r\<close> (or the exception \<open>r\<close> raises),
  \<open>None\<close> falls through to the cache.
\<close>

definition validateRequest ::
  "Runtime \<Rightarrow> Env \<Rightarrow> Request \<Rightarrow> (Exception + Response) option" where
  "validateRequest rt env request =
     (if orEmpty (headers_get (Request.headers request) ''authorization'') = []
         \<and> orEmpty (searchParams_get (url request) ''bearer_token'') = [] then
        Some (errorResponse rt (JNum 401) (JStr ''Mismatched bearer token''))
      else if requireHTTPS env = Some True \<and> protocol (url request) \<noteq> ''https:'' then
        Some (errorResponse rt (JNum 426) (JStr ''HTTPS is required''))
      else if \<not> methodAllowed (toUpperCase (method request)) then
        Some (errorResponse rt (JNum 405) (JStr ''Method not allowed''))
      else
        (case Request.body request of
           Some b \<Rightarrow>
             if \<not> methodHasBody (toUpperCase (method request)) then
               Some (errorResponse rt (JNum 406) (JStr ''Body data not expected''))
             else
               (let contentType = orEmpty (headers_get (Request.headers request) ''content-type'')
                in if contentType = [] then
                     Some (errorResponse rt (JNum 406) (JStr ''Content-Type is required for request type''))
                   else if allowBinaryData env \<noteq> Some True then
                     (case contentTypeMatch contentType of
                        None \<Rightarrow>
                          Some (errorResponse rt (JNum 406) (JStr ''Content-Type not acceptable for request type''))
                      | Some t \<Rightarrow>
                          if t = ''json'' \<and> \<not> parsesAsJSON b then
                            Some (errorResponse rt (JNum 400) (JStr ''JSON body not valid''))
                          else None)
                   else None)
         | None \<Rightarrow>
             if methodHasBody (toUpperCase (method request)) then
               Some (errorResponse rt (JNum 406) (JStr ''Body data expected''))
             else None))"

subsection \<open>Normalising an upstream error\<close>

text \<open>
  \<open>j.response_map && j.response_map.error_list && j.response_map.error_list[0]\<close>, for
  a document \<open>j\<close> that is not \<open>null\<close>, as the operand of \<open>?.\<close>: the first element of
  the error list when the map and the list are truthy and the element is neither
  \<open>undefined\<close> nor \<open>null\<close>; otherwise \<open>None\<close>, where \<open>?.message === ''\<close> is false and
  \<open>?.message\<close> and \<open>?.http_status_code\<close> are falsy.
\<close>

definition error0 :: "json \<Rightarrow> json option" where
  "error0 j =
     (case readProp j ''response_map'' of
        None \<Rightarrow> None
      | Some rm \<Rightarrow>
          if \<not> truthy rm then None
          else
            (case readProp rm ''error_list'' of
               None \<Rightarrow> None
             | Some el \<Rightarrow>
                 if \<not> truthy el then None
                 else
                   (case index0 el of
                      None \<Rightarrow> None
                    | Some x \<Rightarrow> if x = JNull then None else Some x)))"

text \<open>\<open>a || b || 500\<close>.\<close>

definition orStatus :: "json option \<Rightarrow> json option \<Rightarrow> json" where
  "orStatus a b =
     (case a of
        Some x \<Rightarrow>
          if truthy x then x
          else (case b of Some y \<Rightarrow> if truthy y then y else JNum 500 | None \<Rightarrow> JNum 500)
      | None \<Rightarrow> (case b of Some y \<Rightarrow> if truthy y then y else JNum 500 | None \<Rightarrow> JNum 500))"

text \<open>
  The \<open>else\<close> branch of \<open>response.status === 200\<close>: \<open>Some r\<close> is \<open>return r\<close> (or the
  exception \<open>r\<close> raises), \<open>None\<close> falls through to \<open>return cacheResponse || response\<close>.
  Reading \<open>json.threads\<close> of the document \<open>null\<close> throws a \<open>TypeError\<close>. When the body
  is not JSON, an exception of \<open>errorResponse(response.status, text)\<close> is caught by the
  inner \<open>catch\<close>, as a failure to decode the body is.
\<close>

definition normalizeError :: "Runtime \<Rightarrow> Response \<Rightarrow> (Exception + Response) option" where
  "normalizeError rt response =
     (if orEmpty (headers_get (Response.headers response) ''content-type'') = ''application/json'' then
        (case Response.body response of
           Undecodable \<Rightarrow>
             Some (errorResponse rt (JNum 500) (JStr ''Error decoding response from server''))
         | Text t \<Rightarrow>
             (case errorResponse rt (JNum (status response)) (JStr t) of
                Inr r \<Rightarrow> Some (Inr r)
              | Inl e \<Rightarrow>
                  Some (errorResponse rt (JNum 500) (JStr ''Error decoding response from server'')))
         | JSON json \<Rightarrow>
             if json = JNull then
               Some (Inl (TypeError ''Cannot read properties of null (reading threads)''))
             else if truthyOpt (readProp json ''threads'') then
               Some (errorResponse rt (JNum 500) (JStr ''Pipeline exited''))
             else if (case error0 json of None \<Rightarrow> False
                      | Some x \<Rightarrow> readProp x ''message'' = Some (JStr [])) then
               Some (errorResponse rt (JNum (status response))
                       (JStr ''Server returned empty response error message''))
             else
               (case error0 json of
                  None \<Rightarrow> None
                | Some nestedError \<Rightarrow>
                    if truthyOpt (readProp nestedError ''http_status_code'') then
                      (case error0 nestedError of
                         None \<Rightarrow> None
                       | Some y \<Rightarrow>
                           (case readProp y ''message'' of
                              None \<Rightarrow> None
                            | Some m \<Rightarrow>
                                if truthy m then
                                  Some (errorResponse rt
                                          (orStatus (readProp nestedError ''http_status_code'')
                                                    (readProp json ''http_status_code''))
                                          m)
                                else None))
                    else None))
      else None)"

subsection \<open>\<open>fetch\<close>\<close>

text \<open>
  What the handler does to the outside world, in order: the calls on \<open>caches.default\<close>
  (\<open>cache.put\<close> is the write registered with \<open>ctx.waitUntil\<close>), the call to the
  upstream, and the line written to the console by the \<open>catch\<close> block.
\<close>

datatype Effect =
  CacheDelete string
| CacheMatch string
| CachePut string Response
| Fetch Request
| ConsoleLog Exception

text \<open>
  The outcome of \<open>Promise.race([fetch(targetRequest), timer])\<close>: the upstream call
  resolves first, or rejects first, or the timer does. Which of the three happens is
  decided by the outside world, given the request sent and the delay of the timer in
  milliseconds.
\<close>

datatype Race = Resolved Response | Rejected Exception | TimedOut

definition timerDelay :: "Env \<Rightarrow> int" where
  "timerDelay env = (case requestTimeout env of None \<Rightarrow> 0 | Some t \<Rightarrow> (t - 1) * 1000)"

definition targetUrl :: "Runtime \<Rightarrow> Env \<Rightarrow> Request \<Rightarrow> URL" where
  "targetUrl rt env request =
     (let u = set_port
                (set_hostname (parseHost rt)
                   (set_protocol (url request) (targetProtocol env)) (targetHostname env))
                (toString (targetPort env))
      in case targetPathPrefix env of
           None \<Rightarrow> u
         | Some p \<Rightarrow> if p = [] then u else set_pathname (parsePath rt) u (p @ pathname u))"

definition targetRequest :: "Runtime \<Rightarrow> Env \<Rightarrow> Request \<Rightarrow> Request" where
  "targetRequest rt env request =
     request\<lparr>url := targetUrl rt env request,
             Request.headers := headers_delete (Request.headers request) ''accept-encoding''\<rparr>"

definition noCache :: "Request \<Rightarrow> bool" where
  "noCache request =
     includes_str (toLowerCase (orEmpty (headers_get (Request.headers request) ''cache-control'')))
       ''no-cache''"

text \<open>The response built for the cache from a 200 response of the upstream.\<close>

definition cacheCopy :: "Env \<Rightarrow> Response \<Rightarrow> Response" where
  "cacheCopy env response =
     response\<lparr>Response.headers :=
       headers_delete
         (headers_set (Response.headers response) ''cache-control'' (''max-age='' @ toString (ttl env)))
         ''expires''\<rparr>"

text \<open>
  The part of the \<open>try\<close> block after the cache key is known: the cache, the upstream,
  the branch on the status.
\<close>

definition forward ::
  "Runtime \<Rightarrow> Env \<Rightarrow> Request \<Rightarrow> string \<Rightarrow> (string \<Rightarrow> Response option) \<Rightarrow> (Request \<Rightarrow> int \<Rightarrow> Race)
     \<Rightarrow> (Exception + Response) \<times> Effect list" where
  "forward rt env request cacheKey cache upstream =
     (let cacheResponse = (if noCache request then None else cache cacheKey);
          es1 = [if noCache request then CacheDelete cacheKey else CacheMatch cacheKey]
      in case cacheResponse of
           Some hit \<Rightarrow> (Inr hit, es1)
         | None \<Rightarrow>
             (let es2 = es1 @ [Fetch (targetRequest rt env request)]
              in case (case upstream (targetRequest rt env request) (timerDelay env) of
                         Resolved r \<Rightarrow> Inr r
                       | Rejected e \<Rightarrow> Inl e
                       | TimedOut \<Rightarrow> errorResponse rt (JNum 504) (JStr ''Gateway Timeout'')) of
                   Inl e \<Rightarrow> (Inl e, es2)
                 | Inr response \<Rightarrow>
                     if status response = 200 then
                       (Inr (cacheCopy env response),
                        es2 @ [CachePut cacheKey (cacheCopy env response)])
                     else
                       (case normalizeError rt response of
                          Some r \<Rightarrow> (r, es2)
                        | None \<Rightarrow> (Inr response, es2))))"

text \<open>The \<open>try\<close> block: \<open>Inl\<close> is a thrown exception, \<open>Inr\<close> a returned response.\<close>

definition fetch_try ::
  "Runtime \<Rightarrow> Env \<Rightarrow> Request \<Rightarrow> (string \<Rightarrow> Response option)
     \<Rightarrow> (Request \<Rightarrow> int \<Rightarrow> Race) \<Rightarrow> (Exception + Response) \<times> Effect list" where
  "fetch_try rt env0 request cache upstream =
     (case checkEnv env0 of
        Some e \<Rightarrow> (Inl e, [])
      | None \<Rightarrow>
          (let env = defaults env0
           in case validateRequest rt env request of
                Some r \<Rightarrow> (r, [])
              | None \<Rightarrow>
                  forward rt env request
                    (getCacheKey rt (targetUrl rt env request) request) cache upstream))"

text \<open>The \<open>catch\<close> block.\<close>

definition fetch_catch :: "Runtime \<Rightarrow> Exception \<Rightarrow> Exception + Response" where
  "fetch_catch rt error =
     (case cause error of
        Some c \<Rightarrow>
          if Exception.message error = ''fetch failed'' then
            (if code c = Some ''ENOTFOUND'' \<or> code c = Some ''ECONNREFUSED''
                \<or> code c = Some ''ECONNABORTED'' then
               errorResponse rt (JNum 503) (JStr ''Service Unavailable'')
             else if code c = Some ''ETIMEDOUT'' \<or> code c = Some ''UND_ERR_CONNECT_TIMEOUT''
                \<or> code c = Some ''UND_ERR_HEADERS_TIMEOUT'' \<or> code c = Some ''ECONNRESET''
                \<or> code c = Some ''EHOSTUNREACH'' \<or> code c = Some ''EAI_AGAIN'' then
               errorResponse rt (JNum 504) (JStr ''Gateway Timeout'')
             else errorResponse rt (JNum 502) (JStr ''Bad Gateway''))
          else errorResponse rt (JNum 500) (JStr ''Proxy Error'')
      | None \<Rightarrow> errorResponse rt (JNum 500) (JStr ''Proxy Error''))"

text \<open>
  The handler: the result of the promise it returns (\<open>Inr\<close> a response, \<open>Inl\<close> a
  rejection) and its effects.
\<close>

definition fetch ::
  "Runtime \<Rightarrow> Env \<Rightarrow> Request \<Rightarrow> (string \<Rightarrow> Response option)
     \<Rightarrow> (Request \<Rightarrow> int \<Rightarrow> Race) \<Rightarrow> (Exception + Response) \<times> Effect list" where
  "fetch rt env request cache upstream =
     (case fetch_try rt env request cache upstream of
        (Inr r, es) \<Rightarrow> (Inr r, es)
      | (Inl e, es) \<Rightarrow> (fetch_catch rt e, es @ [ConsoleLog e]))"

text \<open>The cache after the writes and deletions of a list of effects have completed.\<close>

fun cacheAfter :: "Effect list \<Rightarrow> (string \<Rightarrow> Response option) \<Rightarrow> (string \<Rightarrow> Response option)" where
  "cacheAfter [] cache = cache"
| "cacheAfter (CacheDelete k # es) cache = cacheAfter es (cache(k := None))"
| "cacheAfter (CachePut k r # es) cache = cacheAfter es (cache(k \<mapsto> r))"
| "cacheAfter (_ # es) cache = cacheAfter es cache"

text \<open>The keys the handler handed to the cache, and the responses it wrote.\<close>

fun cacheKeys :: "Effect list \<Rightarrow> string list" where
  "cacheKeys [] = []"
| "cacheKeys (CacheDelete k # es) = k # cacheKeys es"
| "cacheKeys (CacheMatch k # es) = k # cacheKeys es"
| "cacheKeys (CachePut k r # es) = k # cacheKeys es"
| "cacheKeys (_ # es) = cacheKeys es"

fun cachePuts :: "Effect list \<Rightarrow> (string \<times> Response) list" where
  "cachePuts [] = []"
| "cachePuts (CachePut k r # es) = (k, r) # cachePuts es"
| "cachePuts (_ # es) = cachePuts es"

fun cacheMatches :: "Effect list \<Rightarrow> string list" where
  "cacheMatches [] = []"
| "cacheMatches (CacheMatch k # es) = k # cacheMatches es"
| "cacheMatches (_ # es) = cacheMatches es"

fun upstreamCalls :: "Effect list \<Rightarrow> Request list" where
  "upstreamCalls [] = []"
| "upstreamCalls (Fetch r # es) = r # upstreamCalls es"
| "upstreamCalls (_ # es) = upstreamCalls es"

text \<open>The cache key of a request: \<open>getCacheKey(new URL(targetUrl), request.clone())\<close>.\<close>

definition cacheKey :: "Runtime \<Rightarrow> Env \<Rightarrow> Request \<Rightarrow> string" where
  "cacheKey rt env request =
     getCacheKey rt (targetUrl rt (defaults env) request) request"

subsection \<open>Example inputs\<close>

text \<open>
  Concrete inputs for the closed statements below. They run the handler with
  \<open>exampleRuntime\<close>, whose parts are stand-ins: the digest returns its input, so that a
  key shows the bytes that were digested; the host parser lower-cases a name made of
  ASCII letters, digits, hyphens and dots and refuses any other string; the path parser
  only adds the leading slash; the number conversion answers 0. Every general theorem
  below holds for any runtime.
\<close>

definition digestStub :: "bytes \<Rightarrow> bytes" where
  "digestStub bs = bs"

definition hostStub :: "string \<Rightarrow> string option" where
  "hostStub h =
     (if h \<noteq> [] \<and> list_all (\<lambda>c. c \<in> set ''abcdefghijklmnopqrstuvwxyz0123456789-.'') (toLowerCase h)
      then Some (toLowerCase h) else None)"

definition pathStub :: "string \<Rightarrow> string" where
  "pathStub p = (if prefix ''/'' p then p else CHR ''/'' # p)"

definition numberStub :: "json \<Rightarrow> Exception + int" where
  "numberStub v = Inr 0"

definition exampleRuntime :: Runtime where
  "exampleRuntime =
     \<lparr>digest = digestStub, parseHost = hostStub, parsePath = pathStub, toNumber = numberStub\<rparr>"

definition exampleEnv :: Env where
  "exampleEnv =
     \<lparr>ttl = 60, targetProtocol = ''https'', targetHostname = ''backend.example'',
      targetPort = 443, targetPathPrefix = None, requireHTTPS = None,
      allowBinaryData = None, requestTimeout = None\<rparr>"

definition mixedCaseEnv :: Env where
  "mixedCaseEnv = exampleEnv\<lparr>targetHostname := ''Backend.Example'', targetPort := 8443\<rparr>"

definition binaryEnv :: Env where
  "binaryEnv = exampleEnv\<lparr>allowBinaryData := Some True\<rparr>"

definition exampleRequest :: Request where
  "exampleRequest =
     \<lparr>method = ''GET'',
      url = \<lparr>protocol = ''https:'', hostname = ''worker.example'', port = [],
             pathname = ''/a'', search = [], hash = []\<rparr>,
      headers = [(''authorization'', ''Bearer t'')],
      body = None\<rparr>"

definition refreshRequest :: Request where
  "refreshRequest =
     exampleRequest\<lparr>Request.headers :=
       [(''authorization'', ''Bearer t''), (''Cache-Control'', ''No-Cache'')]\<rparr>"

definition proppatchRequest :: Request where
  "proppatchRequest = exampleRequest\<lparr>method := ''PROPPATCH''\<rparr>"

definition postWithoutType :: Request where
  "postWithoutType =
     exampleRequest\<lparr>method := ''POST'',
                    Request.body := Some \<lparr>arrayBuffer = ''abc'', parsesAsJSON = False\<rparr>\<rparr>"

definition postWithType :: Request where
  "postWithType =
     postWithoutType\<lparr>Request.headers :=
       [(''authorization'', ''Bearer t''), (''content-type'', ''image/png'')]\<rparr>"

definition emptyCache :: "string \<Rightarrow> Response option" where
  "emptyCache k = None"

definition responds :: "Response \<Rightarrow> Request \<Rightarrow> int \<Rightarrow> Race" where
  "responds r request delay = Resolved r"

definition timesOut :: "Request \<Rightarrow> int \<Rightarrow> Race" where
  "timesOut request delay = TimedOut"

text \<open>
  Documents of the upstream: \<open>{"threads": []}\<close>, \<open>{"threads": null}\<close>, an error that
  wraps a 404 with the message \<open>No such record\<close>, and the same with a nested status of 0.
\<close>

definition threadsDocument :: json where
  "threadsDocument = JObj [(''threads'', JArr [])]"

definition nullThreadsDocument :: json where
  "nullThreadsDocument = JObj [(''threads'', JNull)]"

definition nestedWith :: "int \<Rightarrow> json" where
  "nestedWith n =
     JObj [(''http_status_code'', JNum 500),
           (''response_map'',
              JObj [(''error_list'',
                 JArr [JObj [(''http_status_code'', JNum n),
                             (''response_map'',
                                JObj [(''error_list'',
                                   JArr [JObj [(''message'', JStr ''No such record'')]])])]])])]"

definition nestedDocument :: json where
  "nestedDocument = nestedWith 404"

definition zeroNestedDocument :: json where
  "zeroNestedDocument = nestedWith 0"

definition upstreamResponse :: "int \<Rightarrow> string \<Rightarrow> json \<Rightarrow> Response" where
  "upstreamResponse st ct doc =
     \<lparr>status = st, statusText = [],
      headers = [(''content-type'', ct), (''expires'', ''Thu, 01 Jan 2026 00:00:00 GMT'')],
      body = JSON doc, cf = None\<rparr>"

section \<open>Properties\<close>

subsection \<open>The handler, stage by stage\<close>

lemma errorResponse_ok:
  "200 \<le> s \<Longrightarrow> s \<le> 599 \<Longrightarrow> s \<noteq> 204 \<Longrightarrow> s \<noteq> 205 \<Longrightarrow> s \<noteq> 304 \<Longrightarrow>
   errorResponse rt (JNum s) m =
     Inr \<lparr>status = s, statusText = [], headers = [(''content-type'', ''application/json'')],
          body = JSON (JObj [(''http_status_code'', JNum s),
                             (''response_map'',
                                JObj [(''error_list'', JArr [JObj [(''message'', m)]])])]),
          cf = None\<rparr>"
  by (simp add: errorResponse_def Response_new_def toUnsignedShort_def)

lemma fetch_validated:
  assumes "checkEnv env = None" and "validateRequest rt (defaults env) request = None"
  shows "fetch rt env request cache upstream =
           (case forward rt (defaults env) request (cacheKey rt env request) cache upstream of
              (Inr r, es) \<Rightarrow> (Inr r, es)
            | (Inl e, es) \<Rightarrow> (fetch_catch rt e, es @ [ConsoleLog e]))"
  using assms by (simp add: fetch_def fetch_try_def cacheKey_def Let_def)

lemma fetch_snd:
  assumes "checkEnv env = None" and "validateRequest rt (defaults env) request = None"
  shows "snd (fetch rt env request cache upstream) =
           (case fst (forward rt (defaults env) request (cacheKey rt env request) cache upstream) of
              Inr r \<Rightarrow> snd (forward rt (defaults env) request (cacheKey rt env request) cache upstream)
            | Inl e \<Rightarrow> snd (forward rt (defaults env) request (cacheKey rt env request) cache upstream)
                        @ [ConsoleLog e])"
  by (simp add: fetch_validated[OF assms] split: prod.splits sum.splits)

lemma fetch_rejected:
  assumes "checkEnv env \<noteq> None \<or> validateRequest rt (defaults env) request \<noteq> None"
  shows "cachePuts (snd (fetch rt env request cache upstream)) = []"
  using assms
  by (auto simp add: fetch_def fetch_try_def Let_def split: option.splits sum.splits prod.splits)

lemma cachePuts_log [simp]: "cachePuts (es @ [ConsoleLog e]) = cachePuts es"
  by (induction es rule: cachePuts.induct) auto

lemma cacheMatches_log [simp]: "cacheMatches (es @ [ConsoleLog e]) = cacheMatches es"
  by (induction es rule: cacheMatches.induct) auto

lemma cacheKeys_log [simp]: "cacheKeys (es @ [ConsoleLog e]) = cacheKeys es"
  by (induction es rule: cacheKeys.induct) auto

lemma upstreamCalls_log [simp]: "upstreamCalls (es @ [ConsoleLog e]) = upstreamCalls es"
  by (induction es rule: upstreamCalls.induct) auto

lemma cacheAfter_log [simp]: "cacheAfter (es @ [ConsoleLog e]) cache = cacheAfter es cache"
  by (induction es cache rule: cacheAfter.induct) (simp_all add: fun_upd_def)

lemma forward_hit:
  assumes "\<not> noCache request" and "cache k = Some hit"
  shows "forward rt env request k cache upstream = (Inr hit, [CacheMatch k])"
  using assms by (simp add: forward_def)

lemma forward_resolved:
  assumes "noCache request \<or> cache k = None"
    and "upstream (targetRequest rt env request) (timerDelay env) = Resolved r"
  shows "forward rt env request k cache upstream =
           (if status r = 200 then
              (Inr (cacheCopy env r),
               [if noCache request then CacheDelete k else CacheMatch k,
                Fetch (targetRequest rt env request), CachePut k (cacheCopy env r)])
            else
              (case normalizeError rt r of Some x \<Rightarrow> x | None \<Rightarrow> Inr r,
               [if noCache request then CacheDelete k else CacheMatch k,
                Fetch (targetRequest rt env request)]))"
  using assms by (auto simp add: forward_def Let_def split: option.splits)

lemma normalizeError_timeout:
  "normalizeError rt
     \<lparr>status = 504, statusText = [], headers = [(''content-type'', ''application/json'')],
      body = JSON (JObj [(''http_status_code'', JNum 504),
                         (''response_map'',
                            JObj [(''error_list'',
                               JArr [JObj [(''message'', JStr ''Gateway Timeout'')]])])]),
      cf = None\<rparr> = None"
  by (simp add: normalizeError_def headers_get_def sameName_def orEmpty_def error0_def
        readProp_def index0_def truthy_def truthyOpt_def)

lemma forward_timeout:
  assumes "noCache request \<or> cache k = None"
    and "upstream (targetRequest rt env request) (timerDelay env) = TimedOut"
  shows "forward rt env request k cache upstream =
           (errorResponse rt (JNum 504) (JStr ''Gateway Timeout''),
            [if noCache request then CacheDelete k else CacheMatch k,
             Fetch (targetRequest rt env request)])"
  using assms
  by (auto simp add: forward_def Let_def errorResponse_ok normalizeError_timeout split: option.splits)

lemma forward_rejected:
  assumes "noCache request \<or> cache k = None"
    and "upstream (targetRequest rt env request) (timerDelay env) = Rejected e"
  shows "forward rt env request k cache upstream =
           (Inl e,
            [if noCache request then CacheDelete k else CacheMatch k,
             Fetch (targetRequest rt env request)])"
  using assms by (auto simp add: forward_def Let_def split: option.splits)

lemma cacheKeys_forward:
  "set (cacheKeys (snd (forward rt env request k cache upstream))) = {k}"
  by (auto simp add: forward_def Let_def split: option.splits sum.splits Race.splits)

lemma cachePuts_forward:
  assumes "(k', c) \<in> set (cachePuts (snd (forward rt env request k cache upstream)))"
  shows "k' = k \<and> (noCache request \<or> cache k = None)
       \<and> (\<exists>r. upstream (targetRequest rt env request) (timerDelay env) = Resolved r
               \<and> status r = 200 \<and> c = cacheCopy env r)
       \<and> forward rt env request k cache upstream
           = (Inr c, [if noCache request then CacheDelete k else CacheMatch k,
                      Fetch (targetRequest rt env request), CachePut k c])"
  using assms
  by (auto simp add: forward_def Let_def errorResponse_ok
           split: option.splits sum.splits Race.splits if_splits)

lemma error0_not_null: "error0 j = Some x \<Longrightarrow> j \<noteq> JNull"
  by (auto simp add: error0_def readProp_def)

lemma normalizeError_threads:
  assumes "orEmpty (headers_get (Response.headers r) ''content-type'') = ''application/json''"
    and "Response.body r = JSON json"
    and "truthyOpt (readProp json ''threads'')"
  shows "normalizeError rt r = Some (errorResponse rt (JNum 500) (JStr ''Pipeline exited''))"
proof -
  have "json \<noteq> JNull"
    using assms(3) by (auto simp add: readProp_def truthyOpt_def)
  then show ?thesis
    using assms by (simp add: normalizeError_def)
qed

lemma normalizeError_nested:
  assumes "orEmpty (headers_get (Response.headers r) ''content-type'') = ''application/json''"
    and "Response.body r = JSON json"
    and "\<not> truthyOpt (readProp json ''threads'')"
    and "error0 json = Some nestedError"
    and "readProp nestedError ''message'' \<noteq> Some (JStr [])"
    and "readProp nestedError ''http_status_code'' = Some (JNum n)"
    and "n \<noteq> 0"
    and "error0 nestedError = Some y"
    and "readProp y ''message'' = Some m"
    and "truthy m"
  shows "normalizeError rt r = Some (errorResponse rt (JNum n) m)"
proof -
  have "json \<noteq> JNull"
    using assms(4) by (rule error0_not_null)
  moreover have "truthyOpt (readProp nestedError ''http_status_code'')"
    using assms(6,7) by (simp add: truthyOpt_def truthy_def)
  moreover have "orStatus (readProp nestedError ''http_status_code'') (readProp json ''http_status_code'')
                   = JNum n"
    using assms(6,7) by (simp add: orStatus_def truthy_def)
  ultimately show ?thesis
    using assms(1-5) assms(8-10) by (simp add: normalizeError_def)
qed

text \<open>
  A nested status that is falsy (absent, 0, \<open>null\<close>, \<open>false\<close>, the empty string) leaves
  the answer as it is, whatever the nested message.
\<close>

lemma normalizeError_falsy_status:
  assumes "orEmpty (headers_get (Response.headers r) ''content-type'') = ''application/json''"
    and "Response.body r = JSON json"
    and "\<not> truthyOpt (readProp json ''threads'')"
    and "error0 json = Some nestedError"
    and "readProp nestedError ''message'' \<noteq> Some (JStr [])"
    and "\<not> truthyOpt (readProp nestedError ''http_status_code'')"
  shows "normalizeError rt r = None"
proof -
  have "json \<noteq> JNull"
    using assms(4) by (rule error0_not_null)
  then show ?thesis
    using assms by (simp add: normalizeError_def)
qed

lemma methodHasBody_allowed: "methodHasBody m \<Longrightarrow> methodAllowed m"
  by (auto simp add: methodHasBody_def methodAllowed_def)

text \<open>The promise the handler returns never rejects: the \<open>catch\<close> block always answers.\<close>

lemma fetch_catch_responds: "\<exists>r. fetch_catch rt e = Inr r"
  by (simp add: fetch_catch_def errorResponse_ok split: option.splits)

lemma fetch_responds: "\<exists>r. fst (fetch rt env request cache upstream) = Inr r"
proof (cases "fetch_try rt env request cache upstream")
  case (Pair res es)
  then show ?thesis
    using fetch_catch_responds[of rt]
    by (cases res) (auto simp add: fetch_def)
qed

subsection \<open>Hexadecimal strings and headers\<close>

lemma hexdigit_chars: "hexdigit n \<in> set ''0123456789abcdef''"
  unfolding hexdigit_def by (rule nth_mem) simp

lemma hex_no_question: "\<not> prefix ''?'' (hex bs)"
proof (cases bs)
  case Nil
  then show ?thesis by (simp add: hex_def)
next
  case (Cons b bs')
  have "hexdigit (of_char b div 16) \<noteq> CHR ''?''"
    using hexdigit_chars[of "of_char b div 16"] by auto
  then show ?thesis using Cons by (simp add: hex_def)
qed

lemma hex_empty: "(hex bs = []) = (bs = [])"
  by (cases bs) (simp_all add: hex_def)

lemma getCacheKey_href:
  "getCacheKey rt u request =
     href (u\<lparr>pathname := ''/'',
             search := (if digest rt (keyBuffer request) = [] then []
                        else ''?'' @ hex (digest rt (keyBuffer request)))\<rparr>)"
  using hex_no_question[of "digest rt (keyBuffer request)"]
  by (simp add: getCacheKey_def set_search_def set_pathname_def Let_def hex_empty)

lemma targetUrl_parts:
  "protocol (targetUrl rt env request) = toLowerCase (targetProtocol env) @ '':''"
  "hostname (targetUrl rt env request)
     = (case parseHost rt (targetHostname env) of None \<Rightarrow> hostname (url request) | Some h \<Rightarrow> h)"
  "port (targetUrl rt env request)
     = (if toString (targetPort env) = defaultPort (toLowerCase (targetProtocol env) @ '':'')
        then [] else toString (targetPort env))"
  "hash (targetUrl rt env request) = hash (url request)"
  by (simp_all add: targetUrl_def set_port_def set_hostname_def set_protocol_def set_pathname_def
        Let_def split: option.splits)

lemma filter_headers_delete:
  "filter (\<lambda>kv. sameName (fst kv) name) (headers_delete hs name) = []"
  by (induction hs) (simp_all add: headers_delete_def)

lemma headers_get_delete: "headers_get (headers_delete hs name) name = None"
  by (simp add: headers_get_def filter_headers_delete)

lemma sameName_trans: "sameName a c \<Longrightarrow> sameName b c \<Longrightarrow> sameName a b"
  by (simp add: sameName_def)

lemma headers_get_delete_other:
  assumes "\<not> sameName a b"
  shows "headers_get (headers_delete hs a) b = headers_get hs b"
proof -
  have "filter (\<lambda>kv. sameName (fst kv) b) (headers_delete hs a)
          = filter (\<lambda>kv. sameName (fst kv) b) hs"
    unfolding headers_delete_def filter_filter
    by (rule filter_cong) (use assms in \<open>auto simp add: sameName_def\<close>)
  then show ?thesis by (simp add: headers_get_def)
qed

lemma filter_headers_set:
  "map snd (filter (\<lambda>kv. sameName (fst kv) name) (headers_set hs name v)) = [v]"
proof (induction hs)
  case Nil
  then show ?case by (simp add: sameName_def)
next
  case (Cons kv hs)
  then show ?case by (simp add: filter_headers_delete)
qed

lemma headers_get_set: "headers_get (headers_set hs name v) name = Some v"
proof -
  obtain kvs where k: "filter (\<lambda>kv. sameName (fst kv) name) (headers_set hs name v) = kvs"
    by simp
  with filter_headers_set[of name hs v] have "map snd kvs = [v]" by simp
  then obtain kv where "kvs = [kv]" and "snd kv = v" by auto
  with k show ?thesis by (simp add: headers_get_def)
qed

lemma cacheCopy_headers:
  "headers_get (Response.headers (cacheCopy env r)) ''cache-control''
     = Some (''max-age='' @ toString (ttl env))
   \<and> headers_get (Response.headers (cacheCopy env r)) ''expires'' = None
   \<and> status (cacheCopy env r) = status r
   \<and> Response.body (cacheCopy env r) = Response.body r"
proof -
  have "\<not> sameName ''expires'' ''cache-control''"
    by (simp add: sameName_def toLowerCase_def)
  then show ?thesis
    by (simp add: cacheCopy_def headers_get_delete headers_get_delete_other headers_get_set)
qed

text \<open>The two regular expressions on the content type and the method, on examples.\<close>

lemma contentTypeMatch_examples:
  "contentTypeMatch ''application/json'' = Some ''json''"
  "contentTypeMatch ''application/json; charset=utf-8'' = Some ''json''"
  "contentTypeMatch ''application/x-www-form-urlencoded'' = Some ''x-www-form-urlencoded''"
  "contentTypeMatch ''application/jsonp'' = None"
  "contentTypeMatch ''text/plain'' = None"
  by code_simp+

lemma methodAllowed_listed:
  "m \<in> {''GET'', ''HEAD'', ''POST'', ''PUT'', ''PATCH'', ''DELETE''} \<Longrightarrow> methodAllowed m"
  by (auto simp add: methodAllowed_def)

lemma methodAllowed_examples:
  "\<not> methodAllowed ''OPTIONS''" "\<not> methodAllowed ''TRACE''" "methodAllowed ''PROPPATCH''"
  by code_simp+

text \<open>A method that the regular expression rejects is answered with 405.\<close>

lemma method_rejected_405:
  assumes "checkEnv env = None"
    and "orEmpty (headers_get (Request.headers request) ''authorization'') \<noteq> []
         \<or> orEmpty (searchParams_get (url request) ''bearer_token'') \<noteq> []"
    and "requireHTTPS env = Some False \<or> protocol (url request) = ''https:''"
    and "\<not> methodAllowed (toUpperCase (method request))"
  shows "fetch rt env request cache upstream
           = (errorResponse rt (JNum 405) (JStr ''Method not allowed''), [])"
proof -
  have auth: "(orEmpty (headers_get (Request.headers request) ''authorization'') = []
                  \<and> orEmpty (searchParams_get (url request) ''bearer_token'') = []) = False"
    using assms(2) by blast
  have rh: "(requireHTTPS (defaults env) = Some True \<and> protocol (url request) \<noteq> ''https:'') = False"
    using assms(3) by (cases "requireHTTPS env") (auto simp add: defaults_def)
  have "validateRequest rt (defaults env) request
          = Some (errorResponse rt (JNum 405) (JStr ''Method not allowed''))"
    by (simp add: validateRequest_def auth rh assms(4))
  then show ?thesis
    using assms(1) by (simp add: fetch_def fetch_try_def Let_def errorResponse_ok)
qed

text \<open>
  Answers of the upstream that the typed reading of the source hides: a \<open>threads\<close>
  field that is \<open>null\<close> is falsy, and the answer is returned as it is; the document
  \<open>null\<close> makes the read of \<open>threads\<close> throw, and the \<open>catch\<close> block answers 500
  "Proxy Error"; a text body under a null-body status makes \<open>errorResponse\<close> throw, and
  the inner \<open>catch\<close> answers 500 "Error decoding response from server".
\<close>

lemma threads_null_unmodified:
  "fst (fetch exampleRuntime exampleEnv exampleRequest emptyCache
          (responds (upstreamResponse 500 ''application/json'' nullThreadsDocument)))
     = Inr (upstreamResponse 500 ''application/json'' nullThreadsDocument)"
  by code_simp

lemma null_document_proxy_error:
  "fst (fetch exampleRuntime exampleEnv exampleRequest emptyCache
          (responds (upstreamResponse 500 ''application/json'' JNull)))
     = Inr \<lparr>status = 500, statusText = [], headers = [(''content-type'', ''application/json'')],
            body = JSON (JObj [(''http_status_code'', JNum 500),
                               (''response_map'',
                                  JObj [(''error_list'', JArr [JObj [(''message'', JStr ''Proxy Error'')]])])]),
            cf = None\<rparr>"
  by code_simp

lemma text_body_null_status:
  "fst (fetch exampleRuntime exampleEnv exampleRequest emptyCache
          (responds ((upstreamResponse 304 ''application/json'' JNull)
                       \<lparr>Response.body := Text ''Pipeline execution failed or was aborted''\<rparr>)))
     = Inr \<lparr>status = 500, statusText = [], headers = [(''content-type'', ''application/json'')],
            body = JSON (JObj [(''http_status_code'', JNum 500),
                               (''response_map'',
                                  JObj [(''error_list'',
                                     JArr [JObj [(''message'', JStr ''Error decoding response from server'')]])])]),
            cf = None\<rparr>"
  by code_simp

subsection \<open>The claims\<close>

text \<open>
  In the statements below a validated configuration is \<open>checkEnv env = None\<close>, a request
  that passes validation is \<open>validateRequest rt (defaults env) request = None\<close>, and the
  upstream is reached when the request asks for no cache or the cache has no entry for
  its key.
\<close>

text \<open>
  Claim C1, as the code has it. For a validated request every key handed to the cache
  (by \<open>delete\<close>, \<open>match\<close> or \<open>put\<close>) is one URL string: the target URL with its path
  replaced by \<open>/\<close> and its query replaced by the hexadecimal digest. The target URL has
  the configured protocol in lower case, the configured host name as the host parser of
  the URL standard canonicalises it (the host of the inbound URL when the parser refuses
  it), the configured port unless it is the default port of the protocol, and the
  fragment of the inbound URL. The bytes digested are the upper-cased method, the URL of
  the inbound request as received (not the rewritten target URL) and the body, joined
  by \<open>|\<close>.
\<close>

theorem C1_cache_key:
  assumes "checkEnv env = None"
    and "validateRequest rt (defaults env) request = None"
  shows "set (cacheKeys (snd (fetch rt env request cache upstream)))
           = {href ((targetUrl rt (defaults env) request)
                \<lparr>pathname := ''/'',
                 search :=
                   (let d = digest rt (toUpperCase (method request) @ ''|'' @ href (url request) @ ''|''
                                    @ (case Request.body request of None \<Rightarrow> []
                                       | Some b \<Rightarrow> arrayBuffer b))
                    in if d = [] then [] else ''?'' @ hex d)\<rparr>)}
       \<and> protocol (targetUrl rt (defaults env) request) = toLowerCase (targetProtocol env) @ '':''
       \<and> hostname (targetUrl rt (defaults env) request)
           = (case parseHost rt (targetHostname env) of
                None \<Rightarrow> hostname (url request) | Some h \<Rightarrow> h)
       \<and> port (targetUrl rt (defaults env) request)
           = (if toString (targetPort env) = defaultPort (toLowerCase (targetProtocol env) @ '':'')
              then [] else toString (targetPort env))
       \<and> hash (targetUrl rt (defaults env) request) = hash (url request)"
proof -
  have "cacheKeys (snd (fetch rt env request cache upstream))
          = cacheKeys (snd (forward rt (defaults env) request (cacheKey rt env request) cache upstream))"
    by (simp add: fetch_snd[OF assms] split: sum.splits)
  then have "set (cacheKeys (snd (fetch rt env request cache upstream)))
          = {cacheKey rt env request}"
    by (simp only: cacheKeys_forward)
  moreover have "cacheKey rt env request
           = href ((targetUrl rt (defaults env) request)
                \<lparr>pathname := ''/'',
                 search :=
                   (let d = digest rt (toUpperCase (method request) @ ''|'' @ href (url request) @ ''|''
                                    @ (case Request.body request of None \<Rightarrow> []
                                       | Some b \<Rightarrow> arrayBuffer b))
                    in if d = [] then [] else ''?'' @ hex d)\<rparr>)"
    unfolding cacheKey_def getCacheKey_href keyBuffer_def Let_def by simp
  moreover have "targetProtocol (defaults env) = targetProtocol env"
    "targetHostname (defaults env) = targetHostname env"
    "targetPort (defaults env) = targetPort env"
    by (simp_all add: defaults_def)
  ultimately show ?thesis
    by (simp add: targetUrl_parts)
qed

text \<open>
  Claim C1, witness: the example request, whose key shows the digested bytes
  \<open>GET|https://worker.example/a|\<close> in hexadecimal after the rewritten origin; with the
  host configured as \<open>Backend.Example\<close> and the port as 8443 the origin of the key is
  \<open>https://backend.example:8443\<close>.
\<close>

theorem C1_witness:
  "checkEnv exampleEnv = None
   \<and> validateRequest exampleRuntime (defaults exampleEnv) exampleRequest = None
   \<and> set (cacheKeys (snd (fetch exampleRuntime exampleEnv exampleRequest emptyCache timesOut)))
       = {''https://backend.example/?4745547c68747470733a2f2f776f726b65722e6578616d706c652f617c''}
   \<and> checkEnv mixedCaseEnv = None
   \<and> validateRequest exampleRuntime (defaults mixedCaseEnv) exampleRequest = None
   \<and> set (cacheKeys (snd (fetch exampleRuntime mixedCaseEnv exampleRequest emptyCache timesOut)))
       = {''https://backend.example:8443/?4745547c68747470733a2f2f776f726b65722e6578616d706c652f617c''}"
proof -
  have h1: "checkEnv exampleEnv = None" by code_simp
  have h2: "validateRequest exampleRuntime (defaults exampleEnv) exampleRequest = None" by code_simp
  have h3: "checkEnv mixedCaseEnv = None" by code_simp
  have h4: "validateRequest exampleRuntime (defaults mixedCaseEnv) exampleRequest = None" by code_simp
  have k1: "href ((targetUrl exampleRuntime (defaults exampleEnv) exampleRequest)
                \<lparr>pathname := ''/'',
                 search :=
                   (let d = digest exampleRuntime (toUpperCase (method exampleRequest) @ ''|''
                                    @ href (url exampleRequest) @ ''|''
                                    @ (case Request.body exampleRequest of None \<Rightarrow> []
                                       | Some b \<Rightarrow> arrayBuffer b))
                    in if d = [] then [] else ''?'' @ hex d)\<rparr>)
           = ''https://backend.example/?4745547c68747470733a2f2f776f726b65722e6578616d706c652f617c''"
    by code_simp
  have k2: "href ((targetUrl exampleRuntime (defaults mixedCaseEnv) exampleRequest)
                \<lparr>pathname := ''/'',
                 search :=
                   (let d = digest exampleRuntime (toUpperCase (method exampleRequest) @ ''|''
                                    @ href (url exampleRequest) @ ''|''
                                    @ (case Request.body exampleRequest of None \<Rightarrow> []
                                       | Some b \<Rightarrow> arrayBuffer b))
                    in if d = [] then [] else ''?'' @ hex d)\<rparr>)
           = ''https://backend.example:8443/?4745547c68747470733a2f2f776f726b65722e6578616d706c652f617c''"
    by code_simp
  have c1: "set (cacheKeys (snd (fetch exampleRuntime exampleEnv exampleRequest emptyCache timesOut)))
       = {''https://backend.example/?4745547c68747470733a2f2f776f726b65722e6578616d706c652f617c''}"
    using C1_cache_key[OF h1 h2, of emptyCache timesOut] by (simp only: k1)
  have c2: "set (cacheKeys (snd (fetch exampleRuntime mixedCaseEnv exampleRequest emptyCache timesOut)))
       = {''https://backend.example:8443/?4745547c68747470733a2f2f776f726b65722e6578616d706c652f617c''}"
    using C1_cache_key[OF h3 h4, of emptyCache timesOut] by (simp only: k2)
  from h1 h2 h3 h4 c1 c2 show ?thesis by blast
qed

text \<open>
  Claim C1, counterexample to the claim as stated: the key handed to the cache is a URL,
  not the bare digest, and what is digested is the inbound URL
  \<open>https://worker.example/a\<close>, not the rewritten \<open>https://backend.example/a\<close>.
\<close>

theorem C1_counterexample:
  "cacheKeys (snd (fetch exampleRuntime exampleEnv exampleRequest emptyCache timesOut))
     = [''https://backend.example/?4745547c68747470733a2f2f776f726b65722e6578616d706c652f617c'']
   \<and> ''https://backend.example/?4745547c68747470733a2f2f776f726b65722e6578616d706c652f617c''
     \<noteq> hex (digest exampleRuntime (toUpperCase (method exampleRequest) @ ''|''
                           @ href (targetUrl exampleRuntime (defaults exampleEnv) exampleRequest) @ ''|''))
   \<and> keyBuffer exampleRequest = ''GET|https://worker.example/a|''
   \<and> keyBuffer exampleRequest
     \<noteq> toUpperCase (method exampleRequest) @ ''|''
         @ href (targetUrl exampleRuntime (defaults exampleEnv) exampleRequest) @ ''|''"
  by code_simp

text \<open>
  Claim C2. When the upstream answers, the handler writes to the cache if and only if
  the status of the answer is exactly 200; what it writes is the answer with its
  caching headers rewritten, under the key of the request.
\<close>

theorem C2_stored_iff_200:
  assumes "checkEnv env = None"
    and "validateRequest rt (defaults env) request = None"
    and "noCache request \<or> cache (cacheKey rt env request) = None"
    and "upstream (targetRequest rt (defaults env) request) (timerDelay (defaults env)) = Resolved r"
  shows "cachePuts (snd (fetch rt env request cache upstream)) =
           (if status r = 200 then [(cacheKey rt env request, cacheCopy (defaults env) r)] else [])"
  using assms(3,4)
  by (auto simp add: fetch_validated[OF assms(1,2)] forward_resolved split: option.splits sum.splits)

text \<open>Claim C2, witness: a 200 answer is stored, a 404 answer is not.\<close>

theorem C2_witness:
  "checkEnv exampleEnv = None
   \<and> validateRequest exampleRuntime (defaults exampleEnv) exampleRequest = None
   \<and> cachePuts (snd (fetch exampleRuntime exampleEnv exampleRequest emptyCache
        (responds (upstreamResponse 200 ''text/plain'' threadsDocument))))
       = [(cacheKey exampleRuntime exampleEnv exampleRequest,
           cacheCopy (defaults exampleEnv) (upstreamResponse 200 ''text/plain'' threadsDocument))]
   \<and> cachePuts (snd (fetch exampleRuntime exampleEnv exampleRequest emptyCache
        (responds (upstreamResponse 404 ''text/plain'' threadsDocument)))) = []"
proof -
  let ?ok = "upstreamResponse 200 ''text/plain'' threadsDocument"
  let ?nf = "upstreamResponse 404 ''text/plain'' threadsDocument"
  have h1: "checkEnv exampleEnv = None" by code_simp
  have h2: "validateRequest exampleRuntime (defaults exampleEnv) exampleRequest = None" by code_simp
  have h3: "noCache exampleRequest
            \<or> emptyCache (cacheKey exampleRuntime exampleEnv exampleRequest) = None"
    by (simp add: emptyCache_def)
  have h4: "responds ?ok (targetRequest exampleRuntime (defaults exampleEnv) exampleRequest)
              (timerDelay (defaults exampleEnv)) = Resolved ?ok"
    by (simp add: responds_def)
  have h5: "responds ?nf (targetRequest exampleRuntime (defaults exampleEnv) exampleRequest)
              (timerDelay (defaults exampleEnv)) = Resolved ?nf"
    by (simp add: responds_def)
  have s1: "status ?ok = 200" by (simp add: upstreamResponse_def)
  have s2: "status ?nf \<noteq> 200" by (simp add: upstreamResponse_def)
  show ?thesis
    using h1 h2
      C2_stored_iff_200[where cache = emptyCache and upstream = "responds ?ok", OF h1 h2 h3 h4]
      C2_stored_iff_200[where cache = emptyCache and upstream = "responds ?nf", OF h1 h2 h3 h5]
      s1 s2
    by simp
qed

text \<open>
  Claim C3. A validated request whose \<open>cache-control\<close> header contains \<open>no-cache\<close>, in
  any case, has its key deleted from the cache and no lookup is made, so the outcome
  does not depend on what the cache holds. Every other validated request makes exactly
  one lookup, and a hit is returned as it is, with no call to the upstream.
\<close>

theorem C3_no_cache:
  assumes "checkEnv env = None"
    and "validateRequest rt (defaults env) request = None"
  shows "(noCache request \<longrightarrow>
            (\<exists>es. snd (fetch rt env request cache upstream)
                     = CacheDelete (cacheKey rt env request) # es)
            \<and> cacheMatches (snd (fetch rt env request cache upstream)) = []
            \<and> fetch rt env request cache upstream = fetch rt env request cache' upstream)
       \<and> (\<not> noCache request \<longrightarrow>
            cacheMatches (snd (fetch rt env request cache upstream)) = [cacheKey rt env request]
            \<and> (\<forall>hit. cache (cacheKey rt env request) = Some hit \<longrightarrow>
                 fetch rt env request cache upstream
                   = (Inr hit, [CacheMatch (cacheKey rt env request)])))"
  by (auto simp add: fetch_validated[OF assms] forward_def Let_def
           split: option.splits sum.splits Race.splits)

text \<open>
  Claim C3, witness: the example request makes one lookup; the same request with
  \<open>Cache-Control: No-Cache\<close> makes none.
\<close>

theorem C3_witness:
  "checkEnv exampleEnv = None
   \<and> validateRequest exampleRuntime (defaults exampleEnv) exampleRequest = None
   \<and> \<not> noCache exampleRequest
   \<and> cacheMatches (snd (fetch exampleRuntime exampleEnv exampleRequest emptyCache timesOut))
       = [cacheKey exampleRuntime exampleEnv exampleRequest]
   \<and> validateRequest exampleRuntime (defaults exampleEnv) refreshRequest = None
   \<and> noCache refreshRequest
   \<and> cacheMatches (snd (fetch exampleRuntime exampleEnv refreshRequest emptyCache timesOut)) = []"
proof -
  have h1: "checkEnv exampleEnv = None" by code_simp
  have h2: "validateRequest exampleRuntime (defaults exampleEnv) exampleRequest = None" by code_simp
  have h3: "validateRequest exampleRuntime (defaults exampleEnv) refreshRequest = None" by code_simp
  have n1: "\<not> noCache exampleRequest" by code_simp
  have n2: "noCache refreshRequest" by code_simp
  show ?thesis
    using h1 h2 h3 n1 n2
      C3_no_cache[OF h1 h2, of emptyCache timesOut emptyCache]
      C3_no_cache[OF h1 h3, of emptyCache timesOut emptyCache]
    by blast
qed

text \<open>
  Claim C4 fails on the code. The method \<open>PROPPATCH\<close> is not one of the six allowed
  methods, yet an authenticated HTTPS request with that method passes validation and
  is sent to the upstream: the regular expression of the method check has no group, and
  \<open>PROPPATCH\<close> contains \<open>PATCH\<close>.
\<close>

theorem C4_forwards_PROPPATCH:
  "toUpperCase (method proppatchRequest) = ''PROPPATCH''
   \<and> validateRequest exampleRuntime (defaults exampleEnv) proppatchRequest = None
   \<and> upstreamCalls (snd (fetch exampleRuntime exampleEnv proppatchRequest emptyCache timesOut))
       = [targetRequest exampleRuntime (defaults exampleEnv) proppatchRequest]"
  by code_simp

text \<open>
  Claim C5, as the code has it. On an authenticated, HTTPS-compliant \<open>POST\<close>, \<open>PUT\<close> or
  \<open>PATCH\<close> request with a body: a missing or empty \<open>content-type\<close> header is answered
  with the 406 error envelope "Content-Type is required for request type", whatever
  \<open>allowBinaryData\<close> is; when \<open>allowBinaryData\<close> is not true, a header that matches
  neither \<open>application/json\<close> nor \<open>application/x-www-form-urlencoded\<close> (parameters
  after \<open>;\<close> ignored) is answered with the 406 error envelope "Content-Type not
  acceptable for request type"; when \<open>allowBinaryData\<close> is true, a request with any
  non-empty \<open>content-type\<close> passes validation.
\<close>

theorem C5_content_type_gate:
  assumes "checkEnv env = None"
    and "orEmpty (headers_get (Request.headers request) ''authorization'') \<noteq> []
         \<or> orEmpty (searchParams_get (url request) ''bearer_token'') \<noteq> []"
    and "requireHTTPS env = Some False \<or> protocol (url request) = ''https:''"
    and "methodHasBody (toUpperCase (method request))"
    and "Request.body request = Some b"
  shows "(orEmpty (headers_get (Request.headers request) ''content-type'') = [] \<longrightarrow>
            fetch rt env request cache upstream
              = (Inr \<lparr>status = 406, statusText = [],
                       headers = [(''content-type'', ''application/json'')],
                       body = JSON (JObj [(''http_status_code'', JNum 406),
                                (''response_map'',
                                   JObj [(''error_list'',
                                      JArr [JObj [(''message'',
                                         JStr ''Content-Type is required for request type'')]])])]),
                       cf = None\<rparr>, []))
       \<and> (orEmpty (headers_get (Request.headers request) ''content-type'') \<noteq> []
            \<and> allowBinaryData env \<noteq> Some True
            \<and> contentTypeMatch (orEmpty (headers_get (Request.headers request) ''content-type'')) = None \<longrightarrow>
            fetch rt env request cache upstream
              = (Inr \<lparr>status = 406, statusText = [],
                       headers = [(''content-type'', ''application/json'')],
                       body = JSON (JObj [(''http_status_code'', JNum 406),
                                (''response_map'',
                                   JObj [(''error_list'',
                                      JArr [JObj [(''message'',
                                         JStr ''Content-Type not acceptable for request type'')]])])]),
                       cf = None\<rparr>, []))
       \<and> (orEmpty (headers_get (Request.headers request) ''content-type'') \<noteq> []
            \<and> allowBinaryData env = Some True \<longrightarrow>
            validateRequest rt (defaults env) request = None)"
proof -
  let ?ct = "orEmpty (headers_get (Request.headers request) ''content-type'')"
  let ?required = "errorResponse rt (JNum 406) (JStr ''Content-Type is required for request type'')"
  let ?refused = "errorResponse rt (JNum 406) (JStr ''Content-Type not acceptable for request type'')"
  have auth: "(orEmpty (headers_get (Request.headers request) ''authorization'') = []
                  \<and> orEmpty (searchParams_get (url request) ''bearer_token'') = []) = False"
    using assms(2) by blast
  have rh: "(requireHTTPS (defaults env) = Some True \<and> protocol (url request) \<noteq> ''https:'') = False"
    using assms(3) by (cases "requireHTTPS env") (auto simp add: defaults_def)
  have ab: "(allowBinaryData (defaults env) = Some True) = (allowBinaryData env = Some True)"
    by (cases "allowBinaryData env") (auto simp add: defaults_def)
  have ma: "methodAllowed (toUpperCase (method request))"
    using assms(4) by (rule methodHasBody_allowed)
  have v: "validateRequest rt (defaults env) request =
             (if ?ct = [] then Some ?required
              else if allowBinaryData env \<noteq> Some True then
                (case contentTypeMatch ?ct of
                   None \<Rightarrow> Some ?refused
                 | Some t \<Rightarrow> if t = ''json'' \<and> \<not> parsesAsJSON b
                             then Some (errorResponse rt (JNum 400) (JStr ''JSON body not valid''))
                             else None)
              else None)"
    by (simp add: validateRequest_def Let_def ab auth rh ma assms(4,5))
  have f: "\<And>x. validateRequest rt (defaults env) request = Some x \<Longrightarrow>
             fetch_try rt env request cache upstream = (x, [])"
    using assms(1) by (simp add: fetch_try_def Let_def)
  have c1: "?ct = [] \<longrightarrow> fetch rt env request cache upstream
              = (Inr \<lparr>status = 406, statusText = [],
                       headers = [(''content-type'', ''application/json'')],
                       body = JSON (JObj [(''http_status_code'', JNum 406),
                                (''response_map'',
                                   JObj [(''error_list'',
                                      JArr [JObj [(''message'',
                                         JStr ''Content-Type is required for request type'')]])])]),
                       cf = None\<rparr>, [])"
  proof
    assume "?ct = []"
    then have "fetch_try rt env request cache upstream = (?required, [])"
      by (intro f) (simp add: v)
    then show "fetch rt env request cache upstream
              = (Inr \<lparr>status = 406, statusText = [],
                       headers = [(''content-type'', ''application/json'')],
                       body = JSON (JObj [(''http_status_code'', JNum 406),
                                (''response_map'',
                                   JObj [(''error_list'',
                                      JArr [JObj [(''message'',
                                         JStr ''Content-Type is required for request type'')]])])]),
                       cf = None\<rparr>, [])"
      by (simp add: fetch_def errorResponse_ok)
  qed
  have c2: "?ct \<noteq> [] \<and> allowBinaryData env \<noteq> Some True \<and> contentTypeMatch ?ct = None \<longrightarrow>
            fetch rt env request cache upstream
              = (Inr \<lparr>status = 406, statusText = [],
                       headers = [(''content-type'', ''application/json'')],
                       body = JSON (JObj [(''http_status_code'', JNum 406),
                                (''response_map'',
                                   JObj [(''error_list'',
                                      JArr [JObj [(''message'',
                                         JStr ''Content-Type not acceptable for request type'')]])])]),
                       cf = None\<rparr>, [])"
  proof
    assume "?ct \<noteq> [] \<and> allowBinaryData env \<noteq> Some True \<and> contentTypeMatch ?ct = None"
    then have "fetch_try rt env request cache upstream = (?refused, [])"
      by (intro f) (simp add: v)
    then show "fetch rt env request cache upstream
              = (Inr \<lparr>status = 406, statusText = [],
                       headers = [(''content-type'', ''application/json'')],
                       body = JSON (JObj [(''http_status_code'', JNum 406),
                                (''response_map'',
                                   JObj [(''error_list'',
                                      JArr [JObj [(''message'',
                                         JStr ''Content-Type not acceptable for request type'')]])])]),
                       cf = None\<rparr>, [])"
      by (simp add: fetch_def errorResponse_ok)
  qed
  have c3: "?ct \<noteq> [] \<and> allowBinaryData env = Some True \<longrightarrow>
            validateRequest rt (defaults env) request = None"
    by (simp add: v)
  from c1 c2 c3 show ?thesis by blast
qed

text \<open>Claim C5, witness: one request for each of the three cases.\<close>

theorem C5_witness:
  "checkEnv binaryEnv = None
   \<and> methodHasBody (toUpperCase (method postWithType))
   \<and> fetch exampleRuntime binaryEnv postWithoutType emptyCache timesOut
       = (Inr \<lparr>status = 406, statusText = [],
                headers = [(''content-type'', ''application/json'')],
                body = JSON (JObj [(''http_status_code'', JNum 406),
                         (''response_map'',
                            JObj [(''error_list'',
                               JArr [JObj [(''message'',
                                  JStr ''Content-Type is required for request type'')]])])]),
                cf = None\<rparr>, [])
   \<and> fetch exampleRuntime exampleEnv postWithType emptyCache timesOut
       = (Inr \<lparr>status = 406, statusText = [],
                headers = [(''content-type'', ''application/json'')],
                body = JSON (JObj [(''http_status_code'', JNum 406),
                         (''response_map'',
                            JObj [(''error_list'',
                               JArr [JObj [(''message'',
                                  JStr ''Content-Type not acceptable for request type'')]])])]),
                cf = None\<rparr>, [])
   \<and> validateRequest exampleRuntime (defaults binaryEnv) postWithType = None"
proof -
  let ?b = "\<lparr>arrayBuffer = ''abc'', parsesAsJSON = False\<rparr>"
  have e1: "checkEnv binaryEnv = None" by code_simp
  have e2: "checkEnv exampleEnv = None" by code_simp
  have a1: "orEmpty (headers_get (Request.headers postWithoutType) ''authorization'') \<noteq> []
         \<or> orEmpty (searchParams_get (url postWithoutType) ''bearer_token'') \<noteq> []"
    by code_simp
  have a2: "orEmpty (headers_get (Request.headers postWithType) ''authorization'') \<noteq> []
         \<or> orEmpty (searchParams_get (url postWithType) ''bearer_token'') \<noteq> []"
    by code_simp
  have s1: "requireHTTPS binaryEnv = Some False \<or> protocol (url postWithoutType) = ''https:''"
    by code_simp
  have s2: "requireHTTPS binaryEnv = Some False \<or> protocol (url postWithType) = ''https:''"
    by code_simp
  have s3: "requireHTTPS exampleEnv = Some False \<or> protocol (url postWithType) = ''https:''"
    by code_simp
  have m1: "methodHasBody (toUpperCase (method postWithoutType))" by code_simp
  have m2: "methodHasBody (toUpperCase (method postWithType))" by code_simp
  have b1: "Request.body postWithoutType = Some ?b" by code_simp
  have b2: "Request.body postWithType = Some ?b" by code_simp
  have c1: "orEmpty (headers_get (Request.headers postWithoutType) ''content-type'') = []"
    by code_simp
  have c2: "orEmpty (headers_get (Request.headers postWithType) ''content-type'') \<noteq> []"
    by code_simp
  have c3: "contentTypeMatch (orEmpty (headers_get (Request.headers postWithType) ''content-type'')) = None"
    by code_simp
  have f1: "allowBinaryData exampleEnv \<noteq> Some True" by code_simp
  have f2: "allowBinaryData binaryEnv = Some True" by code_simp
  show ?thesis
    using e1 m2 c1 c2 c3 f1 f2
      C5_content_type_gate[OF e1 a1 s1 m1 b1, of exampleRuntime emptyCache timesOut]
      C5_content_type_gate[OF e2 a2 s3 m2 b2, of exampleRuntime emptyCache timesOut]
      C5_content_type_gate[OF e1 a2 s2 m2 b2, of exampleRuntime emptyCache timesOut]
    by blast
qed

text \<open>
  Claim C5, counterexample to the claim as stated: with \<open>allowBinaryData\<close> true, a
  \<open>POST\<close> with a body and no \<open>content-type\<close> header is rejected with 406.
\<close>

theorem C5_counterexample:
  "allowBinaryData binaryEnv = Some True
   \<and> Request.body postWithoutType = Some \<lparr>arrayBuffer = ''abc'', parsesAsJSON = False\<rparr>
   \<and> fetch exampleRuntime binaryEnv postWithoutType emptyCache timesOut
       = (Inr \<lparr>status = 406, statusText = [],
                headers = [(''content-type'', ''application/json'')],
                body = JSON (JObj [(''http_status_code'', JNum 406),
                         (''response_map'',
                            JObj [(''error_list'',
                               JArr [JObj [(''message'',
                                  JStr ''Content-Type is required for request type'')]])])]),
                cf = None\<rparr>, [])"
  by code_simp

text \<open>
  Claim C6. When the timer of \<open>(requestTimeout - 1) * 1000\<close> milliseconds wins the race
  against the upstream call, the handler answers with the 504 error envelope whose
  message is "Gateway Timeout" and writes nothing to the cache.
\<close>

theorem C6_timeout:
  assumes "checkEnv env = None"
    and "validateRequest rt (defaults env) request = None"
    and "noCache request \<or> cache (cacheKey rt env request) = None"
    and "upstream (targetRequest rt (defaults env) request) (timerDelay (defaults env)) = TimedOut"
  shows "fst (fetch rt env request cache upstream)
           = Inr \<lparr>status = 504, statusText = [],
                   headers = [(''content-type'', ''application/json'')],
                   body = JSON (JObj [(''http_status_code'', JNum 504),
                            (''response_map'',
                               JObj [(''error_list'',
                                  JArr [JObj [(''message'', JStr ''Gateway Timeout'')]])])]),
                   cf = None\<rparr>
       \<and> cachePuts (snd (fetch rt env request cache upstream)) = []
       \<and> timerDelay (defaults env)
           = ((case requestTimeout env of None \<Rightarrow> 100 | Some t \<Rightarrow> if t = 0 then 100 else t) - 1) * 1000"
proof -
  have "timerDelay (defaults env)
          = ((case requestTimeout env of None \<Rightarrow> 100 | Some t \<Rightarrow> if t = 0 then 100 else t) - 1) * 1000"
    by (simp add: timerDelay_def defaults_def split: option.splits)
  then show ?thesis
    using assms(3,4)
    by (simp add: fetch_validated[OF assms(1,2)] forward_timeout errorResponse_ok)
qed

text \<open>
  Claim C6, witness: with the default timeout of 100 seconds the timer is set to 99000
  milliseconds.
\<close>

theorem C6_witness:
  "checkEnv exampleEnv = None
   \<and> validateRequest exampleRuntime (defaults exampleEnv) exampleRequest = None
   \<and> timesOut (targetRequest exampleRuntime (defaults exampleEnv) exampleRequest) 99000 = TimedOut
   \<and> timerDelay (defaults exampleEnv) = 99000
   \<and> fst (fetch exampleRuntime exampleEnv exampleRequest emptyCache timesOut)
       = Inr \<lparr>status = 504, statusText = [],
               headers = [(''content-type'', ''application/json'')],
               body = JSON (JObj [(''http_status_code'', JNum 504),
                        (''response_map'',
                           JObj [(''error_list'',
                              JArr [JObj [(''message'', JStr ''Gateway Timeout'')]])])]),
               cf = None\<rparr>
   \<and> cachePuts (snd (fetch exampleRuntime exampleEnv exampleRequest emptyCache timesOut)) = []"
proof -
  have h1: "checkEnv exampleEnv = None" by code_simp
  have h2: "validateRequest exampleRuntime (defaults exampleEnv) exampleRequest = None" by code_simp
  have h3: "noCache exampleRequest
            \<or> emptyCache (cacheKey exampleRuntime exampleEnv exampleRequest) = None"
    by (simp add: emptyCache_def)
  have h4: "timesOut (targetRequest exampleRuntime (defaults exampleEnv) exampleRequest)
              (timerDelay (defaults exampleEnv)) = TimedOut"
    by (simp add: timesOut_def)
  have d: "timerDelay (defaults exampleEnv) = 99000" by code_simp
  show ?thesis
    using h1 h2 h4 d C6_timeout[where cache = emptyCache and upstream = timesOut, OF h1 h2 h3 h4]
    by simp
qed

text \<open>
  Claim C7, as the code has it. For an upstream answer whose status is not 200, whose
  \<open>content-type\<close> is exactly \<open>application/json\<close> and whose JSON body has a \<open>threads\<close>
  field with a truthy value (any array or object, \<open>true\<close>, a number other than 0, a
  string other than the empty one), the handler answers with the 500 error envelope
  whose message is "Pipeline exited".
\<close>

theorem C7_threads:
  assumes "checkEnv env = None"
    and "validateRequest rt (defaults env) request = None"
    and "noCache request \<or> cache (cacheKey rt env request) = None"
    and "upstream (targetRequest rt (defaults env) request) (timerDelay (defaults env)) = Resolved r"
    and "status r \<noteq> 200"
    and "orEmpty (headers_get (Response.headers r) ''content-type'') = ''application/json''"
    and "Response.body r = JSON json"
    and "readProp json ''threads'' = Some t"
    and "truthy t"
  shows "fst (fetch rt env request cache upstream)
           = Inr \<lparr>status = 500, statusText = [],
                   headers = [(''content-type'', ''application/json'')],
                   body = JSON (JObj [(''http_status_code'', JNum 500),
                            (''response_map'',
                               JObj [(''error_list'',
                                  JArr [JObj [(''message'', JStr ''Pipeline exited'')]])])]),
                   cf = None\<rparr>
       \<and> cachePuts (snd (fetch rt env request cache upstream)) = []"
proof -
  have "truthyOpt (readProp json ''threads'')"
    using assms(8,9) by (simp add: truthyOpt_def)
  then have "normalizeError rt r = Some (errorResponse rt (JNum 500) (JStr ''Pipeline exited''))"
    using assms(6,7) by (intro normalizeError_threads)
  then show ?thesis
    using assms(3,4,5)
    by (simp add: fetch_validated[OF assms(1,2)] forward_resolved errorResponse_ok)
qed

text \<open>Claim C7, witness: a 502 answer whose body is \<open>{"threads": []}\<close>.\<close>

theorem C7_witness:
  "checkEnv exampleEnv = None
   \<and> validateRequest exampleRuntime (defaults exampleEnv) exampleRequest = None
   \<and> readProp threadsDocument ''threads'' = Some (JArr [])
   \<and> truthy (JArr [])
   \<and> fst (fetch exampleRuntime exampleEnv exampleRequest emptyCache
        (responds (upstreamResponse 502 ''application/json'' threadsDocument)))
       = Inr \<lparr>status = 500, statusText = [],
               headers = [(''content-type'', ''application/json'')],
               body = JSON (JObj [(''http_status_code'', JNum 500),
                        (''response_map'',
                           JObj [(''error_list'',
                              JArr [JObj [(''message'', JStr ''Pipeline exited'')]])])]),
               cf = None\<rparr>"
proof -
  let ?r = "upstreamResponse 502 ''application/json'' threadsDocument"
  have h1: "checkEnv exampleEnv = None" by code_simp
  have h2: "validateRequest exampleRuntime (defaults exampleEnv) exampleRequest = None" by code_simp
  have h3: "noCache exampleRequest
            \<or> emptyCache (cacheKey exampleRuntime exampleEnv exampleRequest) = None"
    by (simp add: emptyCache_def)
  have h4: "responds ?r (targetRequest exampleRuntime (defaults exampleEnv) exampleRequest)
              (timerDelay (defaults exampleEnv)) = Resolved ?r"
    by (simp add: responds_def)
  have h5: "status ?r \<noteq> 200" by (simp add: upstreamResponse_def)
  have h6: "orEmpty (headers_get (Response.headers ?r) ''content-type'') = ''application/json''"
    by code_simp
  have h7: "Response.body ?r = JSON threadsDocument" by (simp add: upstreamResponse_def)
  have h8: "readProp threadsDocument ''threads'' = Some (JArr [])"
    by (simp add: threadsDocument_def readProp_def)
  have h9: "truthy (JArr [])" by (simp add: truthy_def)
  show ?thesis
    using h1 h2 h8 h9
      C7_threads[where cache = emptyCache and upstream = "responds ?r", OF h1 h2 h3 h4 h5 h6 h7 h8 h9]
    by simp
qed

text \<open>
  Claim C7, counterexample to the claim as stated: a 200 answer whose body is
  \<open>{"threads": []}\<close> is cached and returned with status 200.
\<close>

theorem C7_counterexample:
  "readProp threadsDocument ''threads'' = Some (JArr [])
   \<and> fst (fetch exampleRuntime exampleEnv exampleRequest emptyCache
        (responds (upstreamResponse 200 ''application/json'' threadsDocument)))
       = Inr \<lparr>status = 200, statusText = [],
               headers = [(''content-type'', ''application/json''), (''cache-control'', ''max-age=60'')],
               body = JSON threadsDocument, cf = None\<rparr>
   \<and> fst (fetch exampleRuntime exampleEnv exampleRequest emptyCache
        (responds (upstreamResponse 200 ''application/json'' threadsDocument)))
       \<noteq> Inr \<lparr>status = 500, statusText = [],
               headers = [(''content-type'', ''application/json'')],
               body = JSON (JObj [(''http_status_code'', JNum 500),
                        (''response_map'',
                           JObj [(''error_list'',
                              JArr [JObj [(''message'', JStr ''Pipeline exited'')]])])]),
               cf = None\<rparr>"
  by code_simp

text \<open>
  Claim C8, as the code has it. Take an upstream answer whose status is not 200 and
  whose \<open>content-type\<close> is exactly \<open>application/json\<close>, to which the two earlier rules
  do not apply (no truthy \<open>threads\<close>, \<open>error_list[0].message\<close> not the empty string).
  If \<open>error_list[0]\<close> has an \<open>http_status_code\<close> that is a number \<open>n\<close> other than 0,
  and a status a response with a body can carry (200 to 599, not 204, 205 or 304), and
  its own \<open>response_map.error_list[0].message\<close> is truthy, the handler answers with the
  error envelope of status \<open>n\<close> that carries the nested message. The fallbacks to the
  outer status and to 500 are never taken.
\<close>

theorem C8_nested_error:
  assumes "checkEnv env = None"
    and "validateRequest rt (defaults env) request = None"
    and "noCache request \<or> cache (cacheKey rt env request) = None"
    and "upstream (targetRequest rt (defaults env) request) (timerDelay (defaults env)) = Resolved r"
    and "status r \<noteq> 200"
    and "orEmpty (headers_get (Response.headers r) ''content-type'') = ''application/json''"
    and "Response.body r = JSON json"
    and "\<not> truthyOpt (readProp json ''threads'')"
    and "error0 json = Some nestedError"
    and "readProp nestedError ''message'' \<noteq> Some (JStr [])"
    and "readProp nestedError ''http_status_code'' = Some (JNum n)"
    and "200 \<le> n" and "n \<le> 599" and "n \<noteq> 204" and "n \<noteq> 205" and "n \<noteq> 304"
    and "error0 nestedError = Some y"
    and "readProp y ''message'' = Some m"
    and "truthy m"
  shows "fst (fetch rt env request cache upstream)
           = Inr \<lparr>status = n, statusText = [],
                  headers = [(''content-type'', ''application/json'')],
                  body = JSON (JObj [(''http_status_code'', JNum n),
                           (''response_map'',
                              JObj [(''error_list'', JArr [JObj [(''message'', m)]])])]),
                  cf = None\<rparr>"
proof -
  have "n \<noteq> 0" using assms(12) by simp
  with assms(6-11) have "normalizeError rt r = Some (errorResponse rt (JNum n) m)"
    using assms(17-19) by (rule normalizeError_nested)
  moreover have "errorResponse rt (JNum n) m
           = Inr \<lparr>status = n, statusText = [],
                  headers = [(''content-type'', ''application/json'')],
                  body = JSON (JObj [(''http_status_code'', JNum n),
                           (''response_map'',
                              JObj [(''error_list'', JArr [JObj [(''message'', m)]])])]),
                  cf = None\<rparr>"
    using assms(12-16) by (rule errorResponse_ok)
  ultimately show ?thesis
    using assms(3,4,5)
    by (simp add: fetch_validated[OF assms(1,2)] forward_resolved)
qed

text \<open>Claim C8, witness: a 500 answer that wraps a 404 "No such record".\<close>

theorem C8_witness:
  "checkEnv exampleEnv = None
   \<and> validateRequest exampleRuntime (defaults exampleEnv) exampleRequest = None
   \<and> fst (fetch exampleRuntime exampleEnv exampleRequest emptyCache
        (responds (upstreamResponse 500 ''application/json'' nestedDocument)))
       = Inr \<lparr>status = 404, statusText = [],
               headers = [(''content-type'', ''application/json'')],
               body = JSON (JObj [(''http_status_code'', JNum 404),
                        (''response_map'',
                           JObj [(''error_list'',
                              JArr [JObj [(''message'', JStr ''No such record'')]])])]),
               cf = None\<rparr>"
proof -
  let ?r = "upstreamResponse 500 ''application/json'' nestedDocument"
  let ?y = "JObj [(''message'', JStr ''No such record'')]"
  let ?n = "JObj [(''http_status_code'', JNum 404),
                  (''response_map'', JObj [(''error_list'', JArr [?y])])]"
  have h1: "checkEnv exampleEnv = None" by code_simp
  have h2: "validateRequest exampleRuntime (defaults exampleEnv) exampleRequest = None" by code_simp
  have h3: "noCache exampleRequest
            \<or> emptyCache (cacheKey exampleRuntime exampleEnv exampleRequest) = None"
    by (simp add: emptyCache_def)
  have h4: "responds ?r (targetRequest exampleRuntime (defaults exampleEnv) exampleRequest)
              (timerDelay (defaults exampleEnv)) = Resolved ?r"
    by (simp add: responds_def)
  have h5: "status ?r \<noteq> 200" by (simp add: upstreamResponse_def)
  have h6: "orEmpty (headers_get (Response.headers ?r) ''content-type'') = ''application/json''"
    by code_simp
  have h7: "Response.body ?r = JSON nestedDocument" by (simp add: upstreamResponse_def)
  have h8: "\<not> truthyOpt (readProp nestedDocument ''threads'')" by code_simp
  have h9: "error0 nestedDocument = Some ?n" by code_simp
  have h10: "readProp ?n ''message'' \<noteq> Some (JStr [])" by code_simp
  have h11: "readProp ?n ''http_status_code'' = Some (JNum 404)" by code_simp
  have h12: "error0 ?n = Some ?y" by code_simp
  have h13: "readProp ?y ''message'' = Some (JStr ''No such record'')" by code_simp
  have h14: "truthy (JStr ''No such record'')" by code_simp
  show ?thesis
    using h1 h2
      C8_nested_error[where cache = emptyCache and upstream = "responds ?r",
        OF h1 h2 h3 h4 h5 h6 h7 h8 h9 h10 h11 _ _ _ _ _ h12 h13 h14]
    by simp
qed

text \<open>
  Claim C8, counterexample to the claim as stated: a 502 answer with no \<open>threads\<close>
  field whose \<open>error_list[0]\<close> contains the nested \<open>http_status_code\<close> 0 and the nested
  message "No such record" is returned as it is, with status 502; no envelope with the
  nested message is built, with the nested status, the outer status 500 or 500.
\<close>

theorem C8_counterexample:
  "readProp zeroNestedDocument ''threads'' = None
   \<and> readProp zeroNestedDocument ''http_status_code'' = Some (JNum 500)
   \<and> map_option (\<lambda>x. readProp x ''http_status_code'') (error0 zeroNestedDocument)
       = Some (Some (JNum 0))
   \<and> map_option (\<lambda>y. readProp y ''message'') (Option.bind (error0 zeroNestedDocument) error0)
       = Some (Some (JStr ''No such record''))
   \<and> fst (fetch exampleRuntime exampleEnv exampleRequest emptyCache
        (responds (upstreamResponse 502 ''application/json'' zeroNestedDocument)))
       = Inr \<lparr>status = 502, statusText = [],
               headers = [(''content-type'', ''application/json''),
                          (''expires'', ''Thu, 01 Jan 2026 00:00:00 GMT'')],
               body = JSON zeroNestedDocument, cf = None\<rparr>
   \<and> zeroNestedDocument
       \<noteq> JObj [(''http_status_code'', JNum 500),
                (''response_map'',
                   JObj [(''error_list'', JArr [JObj [(''message'', JStr ''No such record'')]])])]"
  by code_simp

text \<open>
  Claim C9. Every response the handler writes to the cache has status 200, the header
  \<open>cache-control: max-age=<ttl>\<close> and no \<open>expires\<close> header; once the write has
  completed the cache holds it under its key, and the same request, sent again without
  \<open>no-cache\<close>, is answered with exactly that response.
\<close>

theorem C9_stored_headers:
  assumes "(k, c) \<in> set (cachePuts (snd (fetch rt env request cache upstream)))"
  shows "status c = 200
       \<and> headers_get (Response.headers c) ''cache-control'' = Some (''max-age='' @ toString (ttl env))
       \<and> headers_get (Response.headers c) ''expires'' = None
       \<and> cacheAfter (snd (fetch rt env request cache upstream)) cache k = Some c
       \<and> (\<not> noCache request \<longrightarrow>
            fetch rt env request
              (cacheAfter (snd (fetch rt env request cache upstream)) cache) upstream'
              = (Inr c, [CacheMatch k]))"
proof -
  have "\<not> (checkEnv env \<noteq> None \<or> validateRequest rt (defaults env) request \<noteq> None)"
  proof
    assume "checkEnv env \<noteq> None \<or> validateRequest rt (defaults env) request \<noteq> None"
    then have "cachePuts (snd (fetch rt env request cache upstream)) = []"
      by (rule fetch_rejected)
    with assms show False by simp
  qed
  then have v: "checkEnv env = None" "validateRequest rt (defaults env) request = None"
    by blast+
  let ?k = "cacheKey rt env request"
  let ?fw = "forward rt (defaults env) request ?k cache upstream"
  have "cachePuts (snd (fetch rt env request cache upstream)) = cachePuts (snd ?fw)"
    by (simp add: fetch_snd[OF v] split: sum.splits)
  with assms have m: "(k, c) \<in> set (cachePuts (snd ?fw))" by simp
  from cachePuts_forward[OF m] obtain r where
    k: "k = ?k" and
    r: "status r = 200" "c = cacheCopy (defaults env) r" and
    fw: "?fw = (Inr c, [if noCache request then CacheDelete ?k else CacheMatch ?k,
                        Fetch (targetRequest rt (defaults env) request), CachePut ?k c])"
    by auto
  have f: "fetch rt env request cache upstream
             = (Inr c, [if noCache request then CacheDelete ?k else CacheMatch ?k,
                        Fetch (targetRequest rt (defaults env) request), CachePut ?k c])"
    by (simp add: fetch_validated[OF v] fw)
  have t: "ttl (defaults env) = ttl env" by (simp add: defaults_def)
  have after: "cacheAfter (snd (fetch rt env request cache upstream)) cache ?k = Some c"
    by (simp add: f)
  have again: "\<not> noCache request \<longrightarrow>
            fetch rt env request
              (cacheAfter (snd (fetch rt env request cache upstream)) cache) upstream'
              = (Inr c, [CacheMatch ?k])"
    using after by (simp add: fetch_validated[OF v] forward_hit)
  show ?thesis
    using cacheCopy_headers[of "defaults env" r] r t after again k by simp
qed

text \<open>Claim C9, witness: a 200 answer that carries an \<open>expires\<close> header, with a ttl of 60.\<close>

theorem C9_witness:
  "(cacheKey exampleRuntime exampleEnv exampleRequest,
    cacheCopy (defaults exampleEnv) (upstreamResponse 200 ''application/json'' nestedDocument))
     \<in> set (cachePuts (snd (fetch exampleRuntime exampleEnv exampleRequest emptyCache
          (responds (upstreamResponse 200 ''application/json'' nestedDocument)))))
   \<and> headers_get (Response.headers
        (cacheCopy (defaults exampleEnv) (upstreamResponse 200 ''application/json'' nestedDocument)))
        ''cache-control'' = Some ''max-age=60''
   \<and> headers_get (Response.headers
        (cacheCopy (defaults exampleEnv) (upstreamResponse 200 ''application/json'' nestedDocument)))
        ''expires'' = None"
proof -
  let ?r = "upstreamResponse 200 ''application/json'' nestedDocument"
  have m: "(cacheKey exampleRuntime exampleEnv exampleRequest, cacheCopy (defaults exampleEnv) ?r)
     \<in> set (cachePuts (snd (fetch exampleRuntime exampleEnv exampleRequest emptyCache (responds ?r))))"
    by code_simp
  have t: "''max-age='' @ toString (ttl exampleEnv) = ''max-age=60''" by code_simp
  show ?thesis
    using m C9_stored_headers[OF m] t by simp
qed

text \<open>
  Claim C10. An upstream answer whose status is not 200 and whose \<open>content-type\<close> is
  not exactly \<open>application/json\<close> is returned as it is, whatever its body, and nothing
  is written to the cache.
\<close>

theorem C10_other_content_type:
  assumes "checkEnv env = None"
    and "validateRequest rt (defaults env) request = None"
    and "noCache request \<or> cache (cacheKey rt env request) = None"
    and "upstream (targetRequest rt (defaults env) request) (timerDelay (defaults env)) = Resolved r"
    and "status r \<noteq> 200"
    and "orEmpty (headers_get (Response.headers r) ''content-type'') \<noteq> ''application/json''"
  shows "fst (fetch rt env request cache upstream) = Inr r
       \<and> cachePuts (snd (fetch rt env request cache upstream)) = []"
  using assms(3-)
  by (auto simp add: fetch_validated[OF assms(1,2)] forward_resolved normalizeError_def)

text \<open>Claim C10, witness: a 500 answer of type \<open>application/json; charset=utf-8\<close>.\<close>

theorem C10_witness:
  "checkEnv exampleEnv = None
   \<and> validateRequest exampleRuntime (defaults exampleEnv) exampleRequest = None
   \<and> fst (fetch exampleRuntime exampleEnv exampleRequest emptyCache
        (responds (upstreamResponse 500 ''application/json; charset=utf-8'' threadsDocument)))
       = Inr (upstreamResponse 500 ''application/json; charset=utf-8'' threadsDocument)"
proof -
  let ?r = "upstreamResponse 500 ''application/json; charset=utf-8'' threadsDocument"
  have h1: "checkEnv exampleEnv = None" by code_simp
  have h2: "validateRequest exampleRuntime (defaults exampleEnv) exampleRequest = None" by code_simp
  have h3: "noCache exampleRequest
            \<or> emptyCache (cacheKey exampleRuntime exampleEnv exampleRequest) = None"
    by (simp add: emptyCache_def)
  have h4: "responds ?r (targetRequest exampleRuntime (defaults exampleEnv) exampleRequest)
              (timerDelay (defaults exampleEnv)) = Resolved ?r"
    by (simp add: responds_def)
  have h5: "status ?r \<noteq> 200" by (simp add: upstreamResponse_def)
  have h6: "orEmpty (headers_get (Response.headers ?r) ''content-type'') \<noteq> ''application/json''"
    by code_simp
  show ?thesis
    using h1 h2
      C10_other_content_type[where cache = emptyCache and upstream = "responds ?r",
        OF h1 h2 h3 h4 h5 h6]
    by simp
qed

end
